theory Spec2Isabelle
  imports Complex_Main "HOL-Library.Sublist" "HOL-Library.Multiset" "HOL-Library.Log_Nat"
begin

section \<open>Python values used by ssh\_manager.py\<close>

text \<open>
  Exceptions are values. An exception is its class and the text \<open>str(e)\<close> gives;
  the handlers of the module only distinguish \<open>subprocess.TimeoutExpired\<close> from every
  other \<open>Exception\<close>. A computation that may raise returns
  \<open>py_exception + 'a\<close>, with \<open>Inl\<close> for the raised exception. Only subclasses
  of \<open>Exception\<close> are values here; \<open>KeyboardInterrupt\<close> and \<open>SystemExit\<close>, which
  no handler of the module catches, are not.
\<close>

datatype exc_class = TimeoutExpired | ValueError | IndexError | KeyError | TypeError
  | AttributeError | OSError | CalledProcessError | OtherException

datatype py_exception = PyExc exc_class string

fun exc_str :: "py_exception \<Rightarrow> string" where
  "exc_str (PyExc c m) = m"

fun exc_is :: "exc_class \<Rightarrow> py_exception \<Rightarrow> bool" where
  "exc_is c (PyExc c' m) = (c = c')"

text \<open>Truthiness of an \<open>Optional[str]\<close>: \<open>None\<close> and the empty string are false.\<close>

fun truthy :: "string option \<Rightarrow> bool" where
  "truthy None = False"
| "truthy (Some s) = (s \<noteq> [])"

text \<open>\<open>str(n)\<close> for an integer: decimal digits, with a leading minus sign.\<close>

definition digit_char :: "nat \<Rightarrow> char" where
  "digit_char d = ''0123456789'' ! d"

function str_nat :: "nat \<Rightarrow> string" where
  "str_nat n = (if n < 10 then [digit_char n] else str_nat (n div 10) @ [digit_char (n mod 10)])"
  by pat_completeness auto
termination
  by (relation "measure (\<lambda>n. n)") auto

declare str_nat.simps [simp del]

definition str_int :: "int \<Rightarrow> string" where
  "str_int i = (if i < 0 then CHR ''-'' # str_nat (nat (- i)) else str_nat (nat i))"

text \<open>
  A character is a code point below 256 (the Latin-1 range of Unicode); text with other
  code points is not modelled. \<open>s.lower()\<close> maps the letters \<open>A\<close> to \<open>Z\<close> and the
  upper-case letters of Latin-1 (\<open>0xC0\<close> to \<open>0xDE\<close> without \<open>0xD7\<close>) to the code
  point 32 above, and \<open>needle in s\<close> looks for a contiguous occurrence.
\<close>

definition upper_case :: string where
  "upper_case = ''ABCDEFGHIJKLMNOPQRSTUVWXYZ'' @
     [CHR 0xC0, CHR 0xC1, CHR 0xC2, CHR 0xC3, CHR 0xC4, CHR 0xC5, CHR 0xC6,
      CHR 0xC7, CHR 0xC8, CHR 0xC9, CHR 0xCA, CHR 0xCB, CHR 0xCC, CHR 0xCD,
      CHR 0xCE, CHR 0xCF, CHR 0xD0, CHR 0xD1, CHR 0xD2, CHR 0xD3, CHR 0xD4,
      CHR 0xD5, CHR 0xD6, CHR 0xD8, CHR 0xD9, CHR 0xDA, CHR 0xDB, CHR 0xDC,
      CHR 0xDD, CHR 0xDE]"

definition lower_case :: string where
  "lower_case = ''abcdefghijklmnopqrstuvwxyz'' @
     [CHR 0xE0, CHR 0xE1, CHR 0xE2, CHR 0xE3, CHR 0xE4, CHR 0xE5, CHR 0xE6,
      CHR 0xE7, CHR 0xE8, CHR 0xE9, CHR 0xEA, CHR 0xEB, CHR 0xEC, CHR 0xED,
      CHR 0xEE, CHR 0xEF, CHR 0xF0, CHR 0xF1, CHR 0xF2, CHR 0xF3, CHR 0xF4,
      CHR 0xF5, CHR 0xF6, CHR 0xF8, CHR 0xF9, CHR 0xFA, CHR 0xFB, CHR 0xFC,
      CHR 0xFD, CHR 0xFE]"

definition lower_char :: "char \<Rightarrow> char" where
  "lower_char c =
     (case map_of (zip upper_case lower_case) c of
        Some l \<Rightarrow> l
      | None \<Rightarrow> c)"

definition lower :: "string \<Rightarrow> string" where
  "lower s = map lower_char s"

definition str_in :: "string \<Rightarrow> string \<Rightarrow> bool" where
  "str_in needle s = sublist needle s"

text \<open>
  \<open>s.strip()\<close> removes leading and trailing white space: the code points below 256
  for which \<open>str.isspace\<close> holds are 9 to 13, 28 to 32, \<open>0x85\<close> and \<open>0xA0\<close>.
\<close>

definition isspace :: "char \<Rightarrow> bool" where
  "isspace c = (c \<in> set [CHR 0x09, CHR 0x0A, CHR 0x0B, CHR 0x0C, CHR 0x0D,
                           CHR 0x1C, CHR 0x1D, CHR 0x1E, CHR 0x1F, CHR 0x20,
                           CHR 0x85, CHR 0xA0])"

definition strip :: "string \<Rightarrow> string" where
  "strip s = rev (dropWhile isspace (rev (dropWhile isspace s)))"

text \<open>
  A Python \<open>float\<close> is the rational number it denotes. \<open>round_double\<close> rounds a
  rational to the nearest double, ties to the even significand: for \<open>2^k \<le> |x| < 2^(k+1)\<close>
  the doubles are the multiples of \<open>2^(k-52)\<close>. The exponent range of a double is
  not modelled: the floats of this module are quotients of two list lengths and their
  products with 100, which lie far inside it. \<open>a / b\<close> on two integers is the
  correctly rounded quotient, and \<open>x * y\<close> on floats the correctly rounded product.
\<close>

definition binary_exponent :: "rat \<Rightarrow> int" where
  \<comment> \<open>the \<open>k\<close> with \<open>2^k \<le> x < 2^(k+1)\<close>, for \<open>0 < x\<close>\<close>
  "binary_exponent x =
     (case quotient_of x of
        (p, q) \<Rightarrow>
          let k = bitlen p - bitlen q
          in if 2 powi k \<le> x then k else k - 1)"

definition round_half_even :: "rat \<Rightarrow> int" where
  "round_half_even y =
     (let m = \<lfloor>y\<rfloor>; r = y - of_int m
      in if r < 1 / 2 then m
         else if 1 / 2 < r then m + 1
         else if even m then m else m + 1)"

definition round_double :: "rat \<Rightarrow> rat" where
  "round_double x =
     (if x = 0 then 0
      else let a = \<bar>x\<bar>; e = binary_exponent a - 52
           in sgn x * of_int (round_half_even (a / 2 powi e)) * 2 powi e)"

definition int_truediv :: "int \<Rightarrow> int \<Rightarrow> rat" where
  \<comment> \<open>\<open>a / b\<close> for integers, where the code has made sure of \<open>b \<noteq> 0\<close>\<close>
  "int_truediv a b = round_double (of_int a / of_int b)"

definition float_mul :: "rat \<Rightarrow> rat \<Rightarrow> rat" where
  "float_mul x y = round_double (x * y)"

text \<open>
  A \<open>dict\<close> is an association list in insertion order with distinct keys.
  \<open>d[k] = v\<close> replaces the value of an existing key in place and appends a new key.
\<close>

fun dict_set :: "'k \<Rightarrow> 'v \<Rightarrow> ('k \<times> 'v) list \<Rightarrow> ('k \<times> 'v) list" where
  "dict_set k v [] = [(k, v)]"
| "dict_set k v ((k', v') # d) =
     (if k = k' then (k, v) # d else (k', v') # dict_set k v d)"

definition dict_get :: "('k \<times> 'v) list \<Rightarrow> 'k \<Rightarrow> 'v option" where
  "dict_get d k = map_of d k"

section \<open>The dataclasses\<close>

record SSHCredentials =
  username :: string
  password :: "string option"
  private_key_path :: "string option"
  port :: int

text \<open>
  The constructor call \<open>SSHCredentials(username=..., password=..., private_key_path=...,
  port=...)\<close>. An argument that is not supplied is \<open>None\<close> here: \<open>username\<close> has no
  default, so leaving it out is a \<open>TypeError\<close> of the call; the other three fall back
  to their defaults \<open>None\<close>, \<open>None\<close> and \<open>22\<close>. After the fields are set,
  \<open>__post_init__\<close> runs.
\<close>

definition post_init :: "SSHCredentials \<Rightarrow> py_exception + SSHCredentials" where
  "post_init c =
     (if \<not> truthy (password c) \<and> \<not> truthy (private_key_path c)
      then Inl (PyExc ValueError ''Either password or private_key_path must be provided'')
      else Inr c)"

definition SSHCredentials_init ::
  "string option \<Rightarrow> string option \<Rightarrow> string option \<Rightarrow> int option
     \<Rightarrow> py_exception + SSHCredentials" where
  "SSHCredentials_init u pw key p =
     (case u of
        None \<Rightarrow> Inl (PyExc TypeError
          (''__init__() missing 1 required positional argument: '' @
           [CHR 0x27] @ ''username'' @ [CHR 0x27]))
      | Some name \<Rightarrow>
          post_init \<lparr> username = name, password = pw, private_key_path = key,
                      port = (case p of None \<Rightarrow> 22 | Some n \<Rightarrow> n) \<rparr>)"

text \<open>
  The class is declared with a plain \<open>@dataclass\<close>, not \<open>@dataclass(frozen=True)\<close>:
  an assignment \<open>credentials.password = v\<close> sets the field, and \<open>__post_init__\<close> does
  not run again. A frozen dataclass would raise \<open>FrozenInstanceError\<close>, a subclass of
  \<open>AttributeError\<close>.
\<close>

definition SSHCredentials_frozen :: bool where
  "SSHCredentials_frozen = False"

definition setattr_password :: "SSHCredentials \<Rightarrow> string option \<Rightarrow> py_exception + SSHCredentials" where
  "setattr_password c v =
     (if SSHCredentials_frozen
      then Inl (PyExc AttributeError (''cannot assign to field '' @ [CHR 0x27] @ ''password'' @ [CHR 0x27]))
      else Inr (c\<lparr>password := v\<rparr>))"

record SSHConnectionResult =
  host :: string
  success :: bool
  error_message :: "string option"
  connection_time :: real
  auth_method :: "string option"

text \<open>
  The fields of \<open>SSHCommandResult\<close> that share a name with a field above carry the
  prefix \<open>c_\<close>. The two times are differences of readings of the clock; the clock
  and the times are real numbers here.
\<close>

record SSHCommandResult =
  c_host :: string
  command :: string
  c_success :: bool
  stdout :: string
  stderr :: string
  exit_code :: int
  execution_time :: real

definition failed_connection :: "string \<Rightarrow> string \<Rightarrow> SSHConnectionResult" where
  \<comment> \<open>\<open>SSHConnectionResult(host=h, success=False, error_message=m)\<close>, the other fields at their defaults\<close>
  "failed_connection h m =
     \<lparr> host = h, success = False, error_message = Some m, connection_time = 0,
       auth_method = None \<rparr>"

definition failed_command :: "string \<Rightarrow> string \<Rightarrow> string \<Rightarrow> SSHCommandResult" where
  \<comment> \<open>\<open>SSHCommandResult(host=h, command=c, success=False, stderr=m, exit_code=-1)\<close>\<close>
  "failed_command h c m =
     \<lparr> c_host = h, command = c, c_success = False, stdout = [], stderr = m,
       exit_code = - 1, execution_time = 0 \<rparr>"

section \<open>The operating system the module calls\<close>

text \<open>
  \<open>subprocess.run(cmd, capture_output=True, text=True, timeout=t)\<close> and
  \<open>time.time()\<close> act on a world \<open>'w\<close> that is passed along. \<open>subprocess.run\<close>
  either returns a completed process (return code, stdout, stderr) or raises. The
  three path operations of \<open>setup_ssh_keys\<close> are library calls as well.
\<close>

datatype CompletedProcess = CompletedProcess int string string

record 'w os =
  subprocess_run :: "string list \<Rightarrow> int option \<Rightarrow> 'w \<Rightarrow> (py_exception + CompletedProcess) \<times> 'w"
  time_time :: "'w \<Rightarrow> real \<times> 'w"
  expanduser :: "string \<Rightarrow> string"
  with_suffix_pub :: "string \<Rightarrow> string"
  path_exists :: "string \<Rightarrow> 'w \<Rightarrow> bool"
  read_text :: "string \<Rightarrow> 'w \<Rightarrow> py_exception + string"

section \<open>SSHConnectionPool\<close>

record SSHConnectionPool =
  max_connections :: int
  connection_timeout :: int

text \<open>
  The argument list both \<open>test_connection\<close> and \<open>execute_command\<close> build; they differ
  in the last element only (\<open>'exit'\<close> or the command). With a false password and a
  \<open>private_key_path\<close> of \<open>None\<close> the list holds \<open>None\<close>, which \<open>subprocess.run\<close>
  rejects with a \<open>TypeError\<close> before it starts a process: that list is \<open>None\<close> here.
\<close>

definition ssh_cmd :: "SSHConnectionPool \<Rightarrow> string \<Rightarrow> SSHCredentials \<Rightarrow> string \<Rightarrow> string list option" where
  "ssh_cmd pool h credentials remote =
     (let key_cmd =
        (case private_key_path credentials of
           None \<Rightarrow> None
         | Some key \<Rightarrow> Some
            [''ssh'', ''-o'', ''BatchMode=yes'',
             ''-o'', ''StrictHostKeyChecking=no'',
             ''-o'', ''ConnectTimeout='' @ str_int (connection_timeout pool),
             ''-i'', key,
             ''-p'', str_int (port credentials),
             username credentials @ ''@'' @ h,
             remote])
      in case password credentials of
           None \<Rightarrow> key_cmd
         | Some pw \<Rightarrow>
            if pw = [] then key_cmd
            else Some
              [''sshpass'', ''-p'', pw,
               ''ssh'', ''-o'', ''BatchMode=yes'',
               ''-o'', ''StrictHostKeyChecking=no'',
               ''-o'', ''ConnectTimeout='' @ str_int (connection_timeout pool),
               ''-p'', str_int (port credentials),
               username credentials @ ''@'' @ h,
               remote])"

definition run_cmd ::
  "'w os \<Rightarrow> string list option \<Rightarrow> int \<Rightarrow> 'w \<Rightarrow> (py_exception + CompletedProcess) \<times> 'w" where
  "run_cmd sys cmd t w =
     (case cmd of
        None \<Rightarrow> (Inl (PyExc TypeError
                  ''expected str, bytes or os.PathLike object, not NoneType''), w)
      | Some argv \<Rightarrow> subprocess_run sys argv (Some t) w)"

definition error_interpretations :: "(int \<times> string) list" where
  "error_interpretations =
     [(255, ''SSH connection failed - host unreachable or SSH not running''),
      (5, ''SSH authentication failed - invalid credentials''),
      (6, ''SSH authentication failed - permission denied''),
      (130, ''Connection interrupted by user'')]"

definition base_error :: "int \<Rightarrow> string" where
  \<comment> \<open>\<open>error_interpretations.get(exit_code, f"SSH failed with exit code {exit_code}")\<close>\<close>
  "base_error code =
     (case map_of error_interpretations code of
        Some m \<Rightarrow> m
      | None \<Rightarrow> ''SSH failed with exit code '' @ str_int code)"

definition interpret_ssh_error :: "int \<Rightarrow> string \<Rightarrow> string" where
  "interpret_ssh_error code err =
     (if str_in ''permission denied'' (lower err)
        then base_error code @ ''. Check username and password/key.''
      else if str_in ''connection refused'' (lower err)
        then base_error code @ ''. Ensure SSH server is running on the target host.''
      else if str_in ''no route to host'' (lower err)
        then base_error code @ ''. Check network connectivity.''
      else if str_in ''timeout'' (lower err)
        then base_error code @ ''. Connection timed out - check network and SSH configuration.''
      else base_error code)"

text \<open>
  \<open>test_connection\<close>: the body of the \<open>try\<close> first, then the two handlers. The result
  is \<open>Inl\<close> when the method raises and \<open>Inr\<close> when it returns.
\<close>

definition test_connection_try ::
  "'w os \<Rightarrow> SSHConnectionPool \<Rightarrow> string \<Rightarrow> SSHCredentials \<Rightarrow> real \<Rightarrow> 'w
     \<Rightarrow> (py_exception + SSHConnectionResult) \<times> 'w" where
  "test_connection_try sys pool h credentials start_time w =
     (case run_cmd sys (ssh_cmd pool h credentials ''exit'') (connection_timeout pool) w of
        (Inl e, w') \<Rightarrow> (Inl e, w')
      | (Inr (CompletedProcess code out err), w') \<Rightarrow>
          (case time_time sys w' of
             (now, w'') \<Rightarrow>
               if code = 0
               then (Inr \<lparr> host = h, success = True, error_message = None,
                           connection_time = now - start_time,
                           auth_method = Some (if truthy (password credentials)
                                               then ''password'' else ''key'') \<rparr>, w'')
               else (Inr \<lparr> host = h, success = False,
                           error_message = Some (interpret_ssh_error code err),
                           connection_time = now - start_time,
                           auth_method = None \<rparr>, w'')))"

definition test_connection ::
  "'w os \<Rightarrow> SSHConnectionPool \<Rightarrow> string \<Rightarrow> SSHCredentials \<Rightarrow> 'w
     \<Rightarrow> (py_exception + SSHConnectionResult) \<times> 'w" where
  "test_connection sys pool h credentials w =
     (case time_time sys w of
        (start_time, w1) \<Rightarrow>
          (case test_connection_try sys pool h credentials start_time w1 of
             (Inr r, w2) \<Rightarrow> (Inr r, w2)
           | (Inl e, w2) \<Rightarrow>
               if exc_is TimeoutExpired e
               then (Inr (failed_connection h
                       (''Connection timeout after '' @ str_int (connection_timeout pool)
                          @ '' seconds'')), w2)
               else (Inr (failed_connection h (exc_str e)), w2)))"

definition execute_command_try ::
  "'w os \<Rightarrow> SSHConnectionPool \<Rightarrow> string \<Rightarrow> string \<Rightarrow> SSHCredentials \<Rightarrow> int \<Rightarrow> real \<Rightarrow> 'w
     \<Rightarrow> (py_exception + SSHCommandResult) \<times> 'w" where
  "execute_command_try sys pool h cmd credentials timeout start_time w =
     (case run_cmd sys (ssh_cmd pool h credentials cmd) timeout w of
        (Inl e, w') \<Rightarrow> (Inl e, w')
      | (Inr (CompletedProcess code out err), w') \<Rightarrow>
          (case time_time sys w' of
             (now, w'') \<Rightarrow>
               (Inr \<lparr> c_host = h, command = cmd, c_success = (code = 0),
                      stdout = out, stderr = err, exit_code = code,
                      execution_time = now - start_time \<rparr>, w'')))"

definition execute_command ::
  "'w os \<Rightarrow> SSHConnectionPool \<Rightarrow> string \<Rightarrow> string \<Rightarrow> SSHCredentials \<Rightarrow> int \<Rightarrow> 'w
     \<Rightarrow> (py_exception + SSHCommandResult) \<times> 'w" where
  "execute_command sys pool h cmd credentials timeout w =
     (case time_time sys w of
        (start_time, w1) \<Rightarrow>
          (case execute_command_try sys pool h cmd credentials timeout start_time w1 of
             (Inr r, w2) \<Rightarrow> (Inr r, w2)
           | (Inl e, w2) \<Rightarrow>
               if exc_is TimeoutExpired e
               then (Inr (failed_command h cmd
                       (''Command timeout after '' @ str_int timeout @ '' seconds'')), w2)
               else (Inr (failed_command h cmd (exc_str e)), w2)))"

section \<open>The parallel dispatcher\<close>

text \<open>
  A worker thread is not run here: the parameter \<open>run_test\<close> (or \<open>run_command\<close>)
  gives, for the call submitted to the executor, what \<open>future.result()\<close> does:
  \<open>Inr r\<close> returns \<open>r\<close>, \<open>Inl e\<close> raises \<open>e\<close>. \<open>as_completed\<close> yields every
  submitted future once, in an order the scheduler chooses: \<open>order\<close> lists the positions
  of the futures in that order, and \<open>completion_order order n\<close> says that it is a
  permutation of the \<open>n\<close> positions. \<open>ThreadPoolExecutor(max_workers=n)\<close> raises a
  \<open>ValueError\<close> for \<open>n \<le> 0\<close>. Log lines are not part of the model.
\<close>

definition completion_order :: "nat list \<Rightarrow> nat \<Rightarrow> bool" where
  "completion_order order n = (mset order = mset [0..<n])"

definition as_completed :: "nat list \<Rightarrow> 'a list \<Rightarrow> 'a list" where
  "as_completed order futures = map (\<lambda>i. futures ! i) order"

fun collect_connections ::
  "(string \<times> (py_exception + SSHConnectionResult)) list
     \<Rightarrow> (string \<times> SSHConnectionResult) list \<Rightarrow> (string \<times> SSHConnectionResult) list" where
  "collect_connections [] results = results"
| "collect_connections ((h, future) # rest) results =
     collect_connections rest
       (dict_set h
          (case future of
             Inr result \<Rightarrow> result
           | Inl e \<Rightarrow> failed_connection h (''Test execution failed: '' @ exc_str e))
          results)"

definition test_multiple_connections ::
  "(string \<Rightarrow> SSHCredentials \<Rightarrow> py_exception + SSHConnectionResult)
     \<Rightarrow> (string \<times> SSHCredentials) list \<Rightarrow> int \<Rightarrow> nat list
     \<Rightarrow> py_exception + (string \<times> SSHConnectionResult) list" where
  "test_multiple_connections run_test hosts_credentials max_workers order =
     (if max_workers \<le> 0
      then Inl (PyExc ValueError ''max_workers must be greater than 0'')
      else
        let future_to_host =
              map (\<lambda>(h, creds). (h, run_test h creds)) hosts_credentials
        in Inr (collect_connections (as_completed order future_to_host) []))"

text \<open>
  \<open>credentials_map.get(host, list(credentials_map.values())[0])\<close>: the default is
  evaluated before \<open>get\<close> is called, for every host.
\<close>

definition first_credentials ::
  "(string \<times> SSHCredentials) list \<Rightarrow> py_exception + SSHCredentials" where
  "first_credentials credentials_map =
     (case credentials_map of
        [] \<Rightarrow> Inl (PyExc IndexError ''list index out of range'')
      | (k, c) # rest \<Rightarrow> Inr c)"

fun submit_commands ::
  "(string \<Rightarrow> string \<Rightarrow> SSHCredentials \<Rightarrow> int \<Rightarrow> py_exception + SSHCommandResult)
     \<Rightarrow> (string \<times> SSHCredentials) list \<Rightarrow> int \<Rightarrow> (string \<times> string) list
     \<Rightarrow> py_exception + (string \<times> (py_exception + SSHCommandResult)) list" where
  "submit_commands run_command credentials_map timeout [] = Inr []"
| "submit_commands run_command credentials_map timeout ((h, cmd) # rest) =
     (case first_credentials credentials_map of
        Inl e \<Rightarrow> Inl e
      | Inr fallback \<Rightarrow>
          (let creds = (case dict_get credentials_map h of
                          Some c \<Rightarrow> c | None \<Rightarrow> fallback)
           in case submit_commands run_command credentials_map timeout rest of
                Inl e \<Rightarrow> Inl e
              | Inr futures \<Rightarrow> Inr ((h, run_command h cmd creds timeout) # futures)))"

fun collect_commands ::
  "(string \<times> string) list \<Rightarrow> (string \<times> (py_exception + SSHCommandResult)) list
     \<Rightarrow> (string \<times> SSHCommandResult) list
     \<Rightarrow> py_exception + (string \<times> SSHCommandResult) list" where
  "collect_commands hosts_commands [] results = Inr results"
| "collect_commands hosts_commands ((h, future) # rest) results =
     (case future of
        Inr result \<Rightarrow> collect_commands hosts_commands rest (dict_set h result results)
      | Inl e \<Rightarrow>
          (case dict_get hosts_commands h of
             None \<Rightarrow> Inl (PyExc KeyError h)
           | Some cmd \<Rightarrow>
               collect_commands hosts_commands rest
                 (dict_set h (failed_command h cmd (''Execution failed: '' @ exc_str e))
                    results)))"

definition execute_parallel_commands ::
  "(string \<Rightarrow> string \<Rightarrow> SSHCredentials \<Rightarrow> int \<Rightarrow> py_exception + SSHCommandResult)
     \<Rightarrow> (string \<times> string) list \<Rightarrow> (string \<times> SSHCredentials) list \<Rightarrow> int \<Rightarrow> int \<Rightarrow> nat list
     \<Rightarrow> py_exception + (string \<times> SSHCommandResult) list" where
  "execute_parallel_commands run_command hosts_commands credentials_map max_workers timeout order =
     (if max_workers \<le> 0
      then Inl (PyExc ValueError ''max_workers must be greater than 0'')
      else
        case submit_commands run_command credentials_map timeout hosts_commands of
          Inl e \<Rightarrow> Inl e
        | Inr future_to_host \<Rightarrow>
            collect_commands hosts_commands (as_completed order future_to_host) [])"

text \<open>
  What the pool itself submits: the bound methods \<open>self.test_connection\<close> and
  \<open>self.execute_command\<close>, each worker on the world \<open>ws h\<close> of its own host.
\<close>

definition pool_test ::
  "'w os \<Rightarrow> SSHConnectionPool \<Rightarrow> (string \<Rightarrow> 'w)
     \<Rightarrow> string \<Rightarrow> SSHCredentials \<Rightarrow> py_exception + SSHConnectionResult" where
  "pool_test sys pool ws h creds = fst (test_connection sys pool h creds (ws h))"

definition pool_command ::
  "'w os \<Rightarrow> SSHConnectionPool \<Rightarrow> (string \<Rightarrow> 'w)
     \<Rightarrow> string \<Rightarrow> string \<Rightarrow> SSHCredentials \<Rightarrow> int \<Rightarrow> py_exception + SSHCommandResult" where
  "pool_command sys pool ws h cmd creds timeout =
     fst (execute_command sys pool h cmd creds timeout (ws h))"

section \<open>SSHManager\<close>

text \<open>
  A node's configuration is a \<open>dict\<close> from keys to strings; \<open>cluster_config\<close> is given
  by its \<open>nodes\<close> dictionary (empty when the key is missing).
\<close>

type_synonym node_config = "(string \<times> string) list"

record summary =
  total_nodes :: int
  successful_connections :: int
  failed_connections :: int
  success_rate :: rat
  successful_hosts :: "string list"
  failed_hosts :: "string list"
  detailed_results :: "(string \<times> SSHConnectionResult) list"

fun build_hosts_credentials ::
  "(string \<times> node_config) list \<Rightarrow> (string \<times> SSHCredentials) list
     \<Rightarrow> py_exception + (string \<times> SSHCredentials) list" where
  "build_hosts_credentials [] hosts_credentials = Inr hosts_credentials"
| "build_hosts_credentials ((node_name, node) # rest) hosts_credentials =
     (let h = dict_get node ''ip'';
          user = (case dict_get node ''username'' of None \<Rightarrow> ''pi'' | Some u \<Rightarrow> u);
          pw = dict_get node ''password'';
          key_path = dict_get node ''ssh_key_path''
      in if truthy h
         then (case SSHCredentials_init (Some user) pw key_path None of
                 Inl e \<Rightarrow> Inl e
               | Inr creds \<Rightarrow>
                   build_hosts_credentials rest
                     (dict_set (case h of Some a \<Rightarrow> a | None \<Rightarrow> []) creds hosts_credentials))
         else build_hosts_credentials rest hosts_credentials)"

definition summarize :: "(string \<times> SSHConnectionResult) list \<Rightarrow> summary" where
  "summarize results =
     (let successful = [h. (h, result) \<leftarrow> results, success result];
          failed = [h. (h, result) \<leftarrow> results, \<not> success result]
      in \<lparr> total_nodes = int (length results),
           successful_connections = int (length successful),
           failed_connections = int (length failed),
           success_rate =
             (if results \<noteq> []
              then float_mul
                     (int_truediv (int (length successful)) (int (length results))) 100
              else 0),
           successful_hosts = successful,
           failed_hosts = failed,
           detailed_results = results \<rparr>)"

definition validate_cluster_connectivity ::
  "(string \<Rightarrow> SSHCredentials \<Rightarrow> py_exception + SSHConnectionResult) \<Rightarrow> nat list
     \<Rightarrow> (string \<times> node_config) list \<Rightarrow> py_exception + summary" where
  "validate_cluster_connectivity run_test order cluster_config =
     (case build_hosts_credentials cluster_config [] of
        Inl e \<Rightarrow> Inl e
      | Inr hosts_credentials \<Rightarrow>
          (case test_multiple_connections run_test hosts_credentials 5 order of
             Inl e \<Rightarrow> Inl e
           | Inr results \<Rightarrow> Inr (summarize results)))"

text \<open>
  \<open>setup_ssh_keys\<close>: the local key pair first (\<open>ssh-keygen\<close> runs with
  \<open>check=True\<close>, so a non-zero return code raises), then one \<open>execute_command\<close> per
  node with an address, in the order of the dictionary.
\<close>

definition key_command :: "string \<Rightarrow> string" where
  "key_command public_key =
     ''mkdir -p ~/.ssh && echo '' @ [CHR 0x27] @ public_key @ [CHR 0x27] @
     '' >> ~/.ssh/authorized_keys && chmod 600 ~/.ssh/authorized_keys && chmod 700 ~/.ssh''"

definition read_public_key :: "'w os \<Rightarrow> string \<Rightarrow> 'w \<Rightarrow> (py_exception + string) \<times> 'w" where
  "read_public_key sys key_path w =
     (let key_path_expanded = expanduser sys key_path;
          generated =
            (if \<not> path_exists sys key_path_expanded w
             then (case subprocess_run sys
                          [''ssh-keygen'', ''-t'', ''rsa'', ''-b'', ''4096'',
                           ''-f'', key_path_expanded, ''-N'', [],
                           ''-C'', ''pi-swarm-cluster-key''] None w of
                     (Inl e, w') \<Rightarrow> (Inl e, w')
                   | (Inr (CompletedProcess code out err), w') \<Rightarrow>
                       if code \<noteq> 0
                       then (Inl (PyExc CalledProcessError
                              (''Command ssh-keygen returned non-zero exit status ''
                                 @ str_int code @ ''.'')), w')
                       else (Inr (), w'))
             else (Inr (), w))
      in case generated of
           (Inl e, w') \<Rightarrow> (Inl e, w')
         | (Inr u, w') \<Rightarrow>
             (case read_text sys (with_suffix_pub sys key_path_expanded) w' of
                Inl e \<Rightarrow> (Inl e, w')
              | Inr text \<Rightarrow> (Inr (strip text), w')))"

fun deploy_keys ::
  "'w os \<Rightarrow> SSHConnectionPool \<Rightarrow> string \<Rightarrow> (string \<times> node_config) list
     \<Rightarrow> (string \<times> bool) list \<Rightarrow> 'w \<Rightarrow> (py_exception + (string \<times> bool) list) \<times> 'w" where
  "deploy_keys sys pool public_key [] results w = (Inr results, w)"
| "deploy_keys sys pool public_key ((node_name, node) # rest) results w =
     (case dict_get node ''ip'' of
        None \<Rightarrow> deploy_keys sys pool public_key rest results w
      | Some h \<Rightarrow>
          if h = [] then deploy_keys sys pool public_key rest results w
          else
            (case SSHCredentials_init
                    (Some (case dict_get node ''username'' of None \<Rightarrow> ''pi'' | Some u \<Rightarrow> u))
                    (dict_get node ''password'') None None of
               Inl e \<Rightarrow> (Inl e, w)
             | Inr credentials \<Rightarrow>
                 (case execute_command sys pool h (key_command public_key) credentials 60 w of
                    (Inl e, w') \<Rightarrow> (Inl e, w')
                  | (Inr result, w') \<Rightarrow>
                      deploy_keys sys pool public_key rest
                        (dict_set h (c_success result) results) w')))"

definition setup_ssh_keys ::
  "'w os \<Rightarrow> SSHConnectionPool \<Rightarrow> (string \<times> node_config) list \<Rightarrow> string \<Rightarrow> 'w
     \<Rightarrow> (py_exception + (string \<times> bool) list) \<times> 'w" where
  "setup_ssh_keys sys pool cluster_config key_path w =
     (case read_public_key sys key_path w of
        (Inl e, w') \<Rightarrow> (Inl e, w')
      | (Inr public_key, w') \<Rightarrow> deploy_keys sys pool public_key cluster_config [] w')"

section \<open>Environments to run the module in\<close>

text \<open>
  \<open>scripted outcome\<close>: every \<open>subprocess.run\<close> ends with \<open>outcome\<close>. The world is
  the wall clock: reading it takes one second and a subprocess two.
\<close>

definition scripted :: "(py_exception + CompletedProcess) \<Rightarrow> real os" where
  "scripted outcome =
     \<lparr> subprocess_run = (\<lambda>argv t w. (outcome, w + 2)),
       time_time = (\<lambda>w. (w, w + 1)),
       expanduser = (\<lambda>p. p),
       with_suffix_pub = (\<lambda>p. p @ ''.pub''),
       path_exists = (\<lambda>p w. True),
       read_text = (\<lambda>p w. Inr ''ssh-rsa AAAA pi-swarm-cluster-key'') \<rparr>"

text \<open>
  \<open>reachable\<close>: every host accepts the connection and runs the command in a POSIX shell.
  The world holds, for each destination \<open>user@host\<close>, the lines of that user's
  \<open>~/.ssh/authorized_keys\<close>, the text of the local public key file and the clock. The
  environment describes the shell for two commands: \<open>exit\<close>, and the key installation
  command for a key without a quote character, where \<open>mkdir -p\<close> and \<open>chmod\<close> succeed
  and \<open>echo 'k' >> file\<close> appends the line \<open>k\<close> to the file. What a shell does with
  any other command line, among them the installation of a key with a quote character
  (whose quoting the shell reads differently), is not described: the environment answers
  them with status 127, and everything proved in it is about the two commands above.
\<close>

record remote_world =
  clock :: real
  public_key_file :: string
  authorized_keys :: "string \<Rightarrow> string list"

definition key_command_prefix :: string where
  "key_command_prefix = ''mkdir -p ~/.ssh && echo '' @ [CHR 0x27]"

definition key_command_suffix :: string where
  "key_command_suffix = [CHR 0x27] @
     '' >> ~/.ssh/authorized_keys && chmod 600 ~/.ssh/authorized_keys && chmod 700 ~/.ssh''"

definition parse_key_command :: "string \<Rightarrow> string option" where
  "parse_key_command c =
     (let n = length key_command_prefix; m = length key_command_suffix;
          k = take (length c - n - m) (drop n c)
      in if n + m \<le> length c \<and> take n c = key_command_prefix
            \<and> drop (length c - m) c = key_command_suffix \<and> CHR 0x27 \<notin> set k
         then Some k else None)"

definition remote_shell ::
  "string list \<Rightarrow> int option \<Rightarrow> remote_world \<Rightarrow> (py_exception + CompletedProcess) \<times> remote_world" where
  "remote_shell argv t w =
     (if length argv < 2 then (Inl (PyExc OSError ''no command''), w)
      else
        let dest = argv ! (length argv - 2); remote = last argv
        in if remote = ''exit'' then (Inr (CompletedProcess 0 [] []), w)
           else (case parse_key_command remote of
                   Some k \<Rightarrow>
                     (Inr (CompletedProcess 0 [] []),
                      w\<lparr>authorized_keys := (authorized_keys w)(dest := authorized_keys w dest @ [k])\<rparr>)
                 | None \<Rightarrow> (Inr (CompletedProcess 127 [] ''command not found''), w)))"

definition reachable :: "remote_world os" where
  "reachable =
     \<lparr> subprocess_run = remote_shell,
       time_time = (\<lambda>w. (clock w, w\<lparr>clock := clock w + 1\<rparr>)),
       expanduser = (\<lambda>p. p),
       with_suffix_pub = (\<lambda>p. p @ ''.pub''),
       path_exists = (\<lambda>p w. True),
       read_text = (\<lambda>p w. Inr (public_key_file w)) \<rparr>"

definition fresh_world :: "string \<Rightarrow> remote_world" where
  "fresh_world pub = \<lparr> clock = 0, public_key_file = pub, authorized_keys = (\<lambda>d. []) \<rparr>"

definition default_pool :: SSHConnectionPool where
  \<comment> \<open>\<open>SSHConnectionPool()\<close>\<close>
  "default_pool = \<lparr> max_connections = 10, connection_timeout = 30 \<rparr>"

section \<open>Notions the properties are stated with\<close>

text \<open>
  A message comes from the classification table when \<open>_interpret_ssh_error\<close> produces
  it for some exit code and some stderr text.
\<close>

definition classified :: "string \<Rightarrow> bool" where
  "classified m = (\<exists>code err. m = interpret_ssh_error code err)"

text \<open>The credentials \<open>execute_parallel_commands\<close> hands to the worker of a host.\<close>

definition credentials_for :: "(string \<times> SSHCredentials) list \<Rightarrow> string \<Rightarrow> SSHCredentials" where
  "credentials_for credentials_map h =
     (case dict_get credentials_map h of
        Some c \<Rightarrow> c
      | None \<Rightarrow> snd (hd credentials_map))"

text \<open>What the two collection loops store for a future.\<close>

definition stored_connection :: "string \<Rightarrow> py_exception + SSHConnectionResult \<Rightarrow> SSHConnectionResult" where
  "stored_connection h future =
     (case future of
        Inr result \<Rightarrow> result
      | Inl e \<Rightarrow> failed_connection h (''Test execution failed: '' @ exc_str e))"

definition stored_command :: "string \<Rightarrow> string \<Rightarrow> py_exception + SSHCommandResult \<Rightarrow> SSHCommandResult" where
  "stored_command h cmd future =
     (case future of
        Inr result \<Rightarrow> result
      | Inl e \<Rightarrow> failed_command h cmd (''Execution failed: '' @ exc_str e))"

text \<open>
  How the one subprocess of a probe or of a command ends, and the two readings of the
  clock around it: \<open>start_time\<close> before the \<open>try\<close>, and the reading taken once
  \<open>subprocess.run\<close> has returned.
\<close>

definition start_time :: "'w os \<Rightarrow> 'w \<Rightarrow> real" where
  "start_time sys w = fst (time_time sys w)"

definition probe_run ::
  "'w os \<Rightarrow> SSHConnectionPool \<Rightarrow> string \<Rightarrow> SSHCredentials \<Rightarrow> 'w
     \<Rightarrow> (py_exception + CompletedProcess) \<times> 'w" where
  "probe_run sys pool h creds w =
     run_cmd sys (ssh_cmd pool h creds ''exit'') (connection_timeout pool)
       (snd (time_time sys w))"

definition command_run ::
  "'w os \<Rightarrow> SSHConnectionPool \<Rightarrow> string \<Rightarrow> string \<Rightarrow> SSHCredentials \<Rightarrow> int \<Rightarrow> 'w
     \<Rightarrow> (py_exception + CompletedProcess) \<times> 'w" where
  "command_run sys pool h cmd creds timeout w =
     run_cmd sys (ssh_cmd pool h creds cmd) timeout (snd (time_time sys w))"

definition end_time :: "'w os \<Rightarrow> (py_exception + CompletedProcess) \<times> 'w \<Rightarrow> real" where
  "end_time sys res = fst (time_time sys (snd res))"

text \<open>
  The destinations \<open>user@host\<close> that \<open>setup_ssh_keys\<close> sends the key to: one for
  every node with an address, in the order of the dictionary.
\<close>

fun key_targets :: "(string \<times> node_config) list \<Rightarrow> string list" where
  "key_targets [] = []"
| "key_targets ((n, node) # rest) =
     (case dict_get node ''ip'' of
        None \<Rightarrow> key_targets rest
      | Some h \<Rightarrow>
          if h = [] then key_targets rest
          else ((case dict_get node ''username'' of None \<Rightarrow> ''pi'' | Some u \<Rightarrow> u) @ ''@'' @ h)
                 # key_targets rest)"

section \<open>Concrete inputs\<close>

definition pi_credentials :: SSHCredentials where
  \<comment> \<open>\<open>SSHCredentials(username='pi', password='raspberry')\<close>\<close>
  "pi_credentials =
     \<lparr> username = ''pi'', password = Some ''raspberry'', private_key_path = None, port = 22 \<rparr>"

text \<open>
  Three hosts: the probe of the first exits with 0, the second is refused with status
  255, and the worker of the third raises.
\<close>

definition three_hosts :: "(string \<times> SSHCredentials) list" where
  "three_hosts =
     [(''10.0.0.1'', pi_credentials), (''10.0.0.2'', pi_credentials),
      (''10.0.0.3'', pi_credentials)]"

definition refused :: "py_exception + CompletedProcess" where
  "refused = Inr (CompletedProcess 255 []
                    ''ssh: connect to host 10.0.0.2 port 22: Connection refused'')"

definition scenario_test :: "string \<Rightarrow> SSHCredentials \<Rightarrow> py_exception + SSHConnectionResult" where
  "scenario_test h creds =
     (if h = ''10.0.0.1''
        then pool_test (scripted (Inr (CompletedProcess 0 [] []))) default_pool (\<lambda>h. 0) h creds
      else if h = ''10.0.0.2''
        then pool_test (scripted refused) default_pool (\<lambda>h. 0) h creds
      else Inl (PyExc OtherException ''worker lost''))"

definition scenario_command ::
  "string \<Rightarrow> string \<Rightarrow> SSHCredentials \<Rightarrow> int \<Rightarrow> py_exception + SSHCommandResult" where
  "scenario_command h cmd creds timeout =
     (if h = ''10.0.0.1''
        then pool_command (scripted (Inr (CompletedProcess 0 ''up 3 days'' []))) default_pool
               (\<lambda>h. 0) h cmd creds timeout
      else Inl (PyExc OtherException ''worker lost''))"

text \<open>
  A worker whose command prints the user name of the credentials it is given, and a
  \<open>credentials_map\<close> with two entries.
\<close>

definition whoami ::
  "string \<Rightarrow> string \<Rightarrow> SSHCredentials \<Rightarrow> int \<Rightarrow> py_exception + SSHCommandResult" where
  "whoami h cmd creds timeout =
     Inr \<lparr> c_host = h, command = cmd, c_success = True, stdout = username creds,
           stderr = [], exit_code = 0, execution_time = 0 \<rparr>"

definition admin_credentials :: SSHCredentials where
  "admin_credentials =
     \<lparr> username = ''admin'', password = Some ''secret'', private_key_path = None,
       port = 22 \<rparr>"

definition two_credentials :: "(string \<times> SSHCredentials) list" where
  "two_credentials = [(''10.0.0.1'', pi_credentials), (''10.0.0.2'', admin_credentials)]"

definition three_nodes :: "(string \<times> node_config) list" where
  "three_nodes =
     [(''node1'', [(''ip'', ''10.0.0.1''), (''password'', ''raspberry'')]),
      (''node2'', [(''ip'', ''10.0.0.2''), (''password'', ''raspberry'')]),
      (''node3'', [(''ip'', ''10.0.0.3''), (''password'', ''raspberry'')])]"

definition cluster_key :: string where
  "cluster_key = ''ssh-rsa AAAAB3NzaC1yc2E pi-swarm-cluster-key''"

definition key_world :: remote_world where
  \<comment> \<open>the public key file ends with a newline; no remote account has a key yet\<close>
  "key_world = fresh_world (cluster_key @ [CHR 0x0A])"

definition one_node :: "(string \<times> node_config) list" where
  "one_node = [(''node1'', [(''ip'', ''10.0.0.1''), (''password'', ''raspberry'')])]"

definition two_nodes :: "(string \<times> node_config) list" where
  "two_nodes =
     [(''node1'', [(''ip'', ''10.0.0.1''), (''password'', ''raspberry'')]),
      (''node2'', [(''ip'', ''10.0.0.2''), (''username'', ''admin''),
                   (''password'', ''secret'')])]"

definition keyed_node :: "(string \<times> node_config) list" where
  \<comment> \<open>the second node has a key path and no password\<close>
  "keyed_node =
     [(''node1'', [(''ip'', ''10.0.0.1''), (''password'', ''raspberry'')]),
      (''node2'', [(''ip'', ''10.0.0.2''), (''ssh_key_path'', ''/home/pi/.ssh/id_rsa'')])]"

section \<open>Credentials\<close>

text \<open>
  Claim C2, as amended. A credential record is built with a username and, of password
  and private key path, at least one that is neither \<open>None\<close> nor the empty string:
  then construction succeeds and returns the record as given, with port 22 when no port
  is supplied. When both are \<open>None\<close> or empty, construction raises a \<open>ValueError\<close>
  (the module has no other error class for it). Without a username the call is
  a \<open>TypeError\<close>. The constructor is a function of its arguments: it has no effect.
\<close>

theorem credentials_need_one_auth_field:
  "(\<not> truthy pw \<and> \<not> truthy key \<longrightarrow>
      SSHCredentials_init (Some u) pw key p
        = Inl (PyExc ValueError ''Either password or private_key_path must be provided''))
   \<and> (truthy pw \<or> truthy key \<longrightarrow>
      SSHCredentials_init (Some u) pw key p
        = Inr \<lparr> username = u, password = pw, private_key_path = key,
                 port = (case p of None \<Rightarrow> 22 | Some n \<Rightarrow> n) \<rparr>)
   \<and> (\<exists>m. SSHCredentials_init None pw key p = Inl (PyExc TypeError m))"
  by (simp add: SSHCredentials_init_def post_init_def)

theorem credentials_need_one_auth_field_witness:
  "truthy (Some ''raspberry'')
   \<and> SSHCredentials_init (Some ''pi'') (Some ''raspberry'') None None
       = Inr \<lparr> username = ''pi'', password = Some ''raspberry'', private_key_path = None,
                port = 22 \<rparr>
   \<and> \<not> truthy None
   \<and> SSHCredentials_init (Some ''pi'') None None (Some 2222)
       = Inl (PyExc ValueError ''Either password or private_key_path must be provided'')"
  using credentials_need_one_auth_field [of "Some ''raspberry''" None "''pi''" None]
    credentials_need_one_auth_field [of None None "''pi''" "Some 2222"]
  by simp

text \<open>
  The claim as stated fails: a password that is present but empty, as a configuration
  file with \<open>password: ""\<close> gives it, does not count, and construction fails although
  a password was supplied.
\<close>

theorem empty_password_rejected:
  "SSHCredentials_init (Some ''pi'') (Some []) None None
     = Inl (PyExc ValueError ''Either password or private_key_path must be provided'')"
  by (simp add: SSHCredentials_init_def post_init_def)

section \<open>One probe, one command\<close>

lemma execute_command_cases:
  "fst (execute_command sys pool h cmd creds timeout w) =
     Inr (case fst (command_run sys pool h cmd creds timeout w) of
            Inl e \<Rightarrow> failed_command h cmd
                      (if exc_is TimeoutExpired e
                       then ''Command timeout after '' @ str_int timeout @ '' seconds''
                       else exc_str e)
          | Inr (CompletedProcess code out err) \<Rightarrow>
              \<lparr> c_host = h, command = cmd, c_success = (code = 0), stdout = out,
                stderr = err, exit_code = code,
                execution_time = end_time sys (command_run sys pool h cmd creds timeout w)
                                   - start_time sys w \<rparr>)"
  by (simp add: execute_command_def execute_command_try_def command_run_def end_time_def
      start_time_def split: prod.split sum.split CompletedProcess.split)

lemma test_connection_cases:
  "fst (test_connection sys pool h creds w) =
     Inr (case fst (probe_run sys pool h creds w) of
            Inl e \<Rightarrow> failed_connection h
                      (if exc_is TimeoutExpired e
                       then ''Connection timeout after '' @ str_int (connection_timeout pool)
                              @ '' seconds''
                       else exc_str e)
          | Inr (CompletedProcess code out err) \<Rightarrow>
              \<lparr> host = h, success = (code = 0),
                error_message =
                  (if code = 0 then None else Some (interpret_ssh_error code err)),
                connection_time = end_time sys (probe_run sys pool h creds w)
                                    - start_time sys w,
                auth_method =
                  (if code = 0
                   then Some (if truthy (password creds) then ''password'' else ''key'')
                   else None) \<rparr>)"
  by (simp add: test_connection_def test_connection_try_def probe_run_def end_time_def
      start_time_def split: prod.split sum.split CompletedProcess.split)

lemma timeout_in_command_message:
  "str_in ''timeout'' (''Command timeout after '' @ str_int timeout @ '' seconds'')"
proof -
  have "''Command timeout after '' @ str_int timeout @ '' seconds''
          = ''Command '' @ ''timeout'' @ ('' after '' @ str_int timeout @ '' seconds'')"
    by simp
  then show ?thesis
    unfolding str_in_def by (metis sublist_appendI)
qed

lemmas run_scripted =
  command_run_def probe_run_def run_cmd_def ssh_cmd_def scripted_def start_time_def
  end_time_def execute_command_def execute_command_try_def test_connection_def
  test_connection_try_def failed_command_def failed_connection_def default_pool_def
  str_int_def str_nat.simps digit_char_def

text \<open>
  Claim C5. \<open>execute_command\<close> returns a result for every host, command, credentials
  and world: it never raises. When the subprocess times out, the result has
  \<open>success = False\<close>, \<open>exit_code = -1\<close> and the timeout message in \<open>stderr\<close>; when
  it raises anything else, the same with the text of the exception; when it completes,
  \<open>success\<close> holds exactly for return code 0 and stdout, stderr and the return code are
  the captured ones.
\<close>

theorem execute_command_never_raises:
  "\<exists>r. fst (execute_command sys pool h cmd creds timeout w) = Inr r
     \<and> (\<forall>e. fst (command_run sys pool h cmd creds timeout w) = Inl e
              \<and> exc_is TimeoutExpired e \<longrightarrow>
           \<not> c_success r \<and> exit_code r = - 1
           \<and> stderr r = ''Command timeout after '' @ str_int timeout @ '' seconds''
           \<and> str_in ''timeout'' (stderr r))
     \<and> (\<forall>e. fst (command_run sys pool h cmd creds timeout w) = Inl e
              \<and> \<not> exc_is TimeoutExpired e \<longrightarrow>
           \<not> c_success r \<and> exit_code r = - 1 \<and> stderr r = exc_str e)
     \<and> (\<forall>code out err.
           fst (command_run sys pool h cmd creds timeout w)
             = Inr (CompletedProcess code out err) \<longrightarrow>
           c_success r = (code = 0) \<and> exit_code r = code \<and> stdout r = out
           \<and> stderr r = err)"
  using timeout_in_command_message [of timeout]
  by (simp add: execute_command_cases failed_command_def
      split: sum.split CompletedProcess.split)

theorem execute_command_never_raises_witness:
  "fst (command_run (scripted (Inl (PyExc TimeoutExpired ''timed out''))) default_pool
          ''10.0.0.1'' ''sleep 5''
          \<lparr>username = ''pi'', password = Some ''raspberry'', private_key_path = None,
            port = 22\<rparr> 1 0)
     = Inl (PyExc TimeoutExpired ''timed out'')
   \<and> exc_is TimeoutExpired (PyExc TimeoutExpired ''timed out'')
   \<and> fst (execute_command (scripted (Inl (PyExc TimeoutExpired ''timed out''))) default_pool
          ''10.0.0.1'' ''sleep 5''
          \<lparr>username = ''pi'', password = Some ''raspberry'', private_key_path = None,
            port = 22\<rparr> 1 0)
     = Inr \<lparr> c_host = ''10.0.0.1'', command = ''sleep 5'', c_success = False,
              stdout = [], stderr = ''Command timeout after 1 seconds'', exit_code = - 1,
              execution_time = 0 \<rparr>"
  using execute_command_never_raises
    [of "scripted (Inl (PyExc TimeoutExpired ''timed out''))" default_pool "''10.0.0.1''"
        "''sleep 5''"
        "\<lparr>username = ''pi'', password = Some ''raspberry'', private_key_path = None,
          port = 22\<rparr>" 1 0]
  by (simp add: run_scripted)

text \<open>
  Claim C9. A probe whose subprocess raises (a timeout or anything else) returns a
  failed result with \<open>connection_time = 0\<close>, and a command whose subprocess raises
  returns a failed result with \<open>execution_time = 0\<close>, whatever the clock says. When
  the subprocess completes, the time reported is the reading of the clock after it minus
  the reading before the \<open>try\<close>.
\<close>

theorem elapsed_time_only_on_completion:
  "(\<forall>e. fst (probe_run sys pool h creds w) = Inl e \<longrightarrow>
      (\<exists>r. fst (test_connection sys pool h creds w) = Inr r \<and> \<not> success r
           \<and> connection_time r = 0))
   \<and> (\<forall>e. fst (command_run sys pool h cmd creds timeout w) = Inl e \<longrightarrow>
      (\<exists>r. fst (execute_command sys pool h cmd creds timeout w) = Inr r \<and> \<not> c_success r
           \<and> execution_time r = 0))
   \<and> (\<forall>code out err.
        fst (probe_run sys pool h creds w) = Inr (CompletedProcess code out err) \<longrightarrow>
      (\<exists>r. fst (test_connection sys pool h creds w) = Inr r
           \<and> connection_time r
               = end_time sys (probe_run sys pool h creds w) - start_time sys w))
   \<and> (\<forall>code out err.
        fst (command_run sys pool h cmd creds timeout w)
          = Inr (CompletedProcess code out err) \<longrightarrow>
      (\<exists>r. fst (execute_command sys pool h cmd creds timeout w) = Inr r
           \<and> execution_time r
               = end_time sys (command_run sys pool h cmd creds timeout w)
                   - start_time sys w))"
  by (simp add: test_connection_cases execute_command_cases failed_command_def
      failed_connection_def)

text \<open>
  In the scripted world the subprocess takes two seconds and each reading of the clock
  one: the timed-out probe leaves the clock at 3 and reports 0, the completed probe
  reports 3.
\<close>

theorem elapsed_time_only_on_completion_witness:
  "fst (probe_run (scripted (Inl (PyExc TimeoutExpired ''timed out''))) default_pool
          ''10.0.0.1'' pi_credentials 0)
     = Inl (PyExc TimeoutExpired ''timed out'')
   \<and> test_connection (scripted (Inl (PyExc TimeoutExpired ''timed out''))) default_pool
          ''10.0.0.1'' pi_credentials 0
     = (Inr \<lparr> host = ''10.0.0.1'', success = False,
               error_message = Some ''Connection timeout after 30 seconds'',
               connection_time = 0, auth_method = None \<rparr>, 3)
   \<and> fst (command_run (scripted (Inl (PyExc OSError ''broken pipe''))) default_pool
          ''10.0.0.1'' ''uptime'' pi_credentials 60 0)
     = Inl (PyExc OSError ''broken pipe'')
   \<and> execute_command (scripted (Inl (PyExc OSError ''broken pipe''))) default_pool
          ''10.0.0.1'' ''uptime'' pi_credentials 60 0
     = (Inr \<lparr> c_host = ''10.0.0.1'', command = ''uptime'', c_success = False,
               stdout = [], stderr = ''broken pipe'', exit_code = - 1,
               execution_time = 0 \<rparr>, 3)
   \<and> fst (probe_run (scripted (Inr (CompletedProcess 0 [] []))) default_pool
          ''10.0.0.1'' pi_credentials 0)
     = Inr (CompletedProcess 0 [] [])
   \<and> test_connection (scripted (Inr (CompletedProcess 0 [] []))) default_pool
          ''10.0.0.1'' pi_credentials 0
     = (Inr \<lparr> host = ''10.0.0.1'', success = True, error_message = None,
               connection_time = 3, auth_method = Some ''password'' \<rparr>, 4)"
  using elapsed_time_only_on_completion
    [where sys = "scripted (Inl (PyExc TimeoutExpired ''timed out''))" and pool = default_pool
       and h = "''10.0.0.1''" and creds = pi_credentials and w = 0 and cmd = "''uptime''"
       and timeout = 60]
    elapsed_time_only_on_completion
    [where sys = "scripted (Inl (PyExc OSError ''broken pipe''))" and pool = default_pool
       and h = "''10.0.0.1''" and creds = pi_credentials and w = 0 and cmd = "''uptime''"
       and timeout = 60]
    elapsed_time_only_on_completion
    [where sys = "scripted (Inr (CompletedProcess 0 [] []))" and pool = default_pool
       and h = "''10.0.0.1''" and creds = pi_credentials and w = 0 and cmd = "''uptime''"
       and timeout = 60]
  by (simp add: run_scripted pi_credentials_def)

section \<open>The messages of a failed probe\<close>

lemma base_error_cases:
  "base_error code =
     (if code = 255 then ''SSH connection failed - host unreachable or SSH not running''
      else if code = 5 then ''SSH authentication failed - invalid credentials''
      else if code = 6 then ''SSH authentication failed - permission denied''
      else if code = 130 then ''Connection interrupted by user''
      else ''SSH failed with exit code '' @ str_int code)"
  by (simp add: base_error_def error_interpretations_def)

lemma interpret_ssh_error_suffix:
  "\<exists>sfx. interpret_ssh_error code err = base_error code @ sfx"
  by (simp add: interpret_ssh_error_def)

lemma classified_shape:
  assumes "classified m"
  shows "(\<exists>t. m = CHR ''S'' # t) \<or> (\<exists>t. m = ''Connection interrupted by user'' @ t)"
proof -
  from assms obtain code err where m: "m = interpret_ssh_error code err"
    by (auto simp: classified_def)
  obtain sfx where s: "interpret_ssh_error code err = base_error code @ sfx"
    using interpret_ssh_error_suffix by blast
  show ?thesis
    unfolding m s base_error_cases by simp
qed

lemma timeout_message_not_classified:
  "\<not> classified (''Connection timeout after '' @ t)"
proof
  assume "classified (''Connection timeout after '' @ t)"
  from classified_shape [OF this] show False by simp
qed

lemma exit_code_in_generic:
  assumes "code \<notin> {255, 5, 6, 130}"
  shows "str_in (''exit code '' @ str_int code) (interpret_ssh_error code err)"
proof -
  obtain sfx where s: "interpret_ssh_error code err = base_error code @ sfx"
    using interpret_ssh_error_suffix by blast
  have "base_error code = ''SSH failed with '' @ (''exit code '' @ str_int code)"
    using assms by (simp add: base_error_cases)
  then have "interpret_ssh_error code err
      = ''SSH failed with '' @ (''exit code '' @ str_int code) @ sfx"
    using s by simp
  then show ?thesis
    unfolding str_in_def by (metis sublist_appendI)
qed

lemma refused_message:
  "interpret_ssh_error 255 ''ssh: connect to host 10.0.0.2 port 22: Connection refused''
     = ''SSH connection failed - host unreachable or SSH not running. Ensure SSH server is running on the target host.''"
  by code_simp

lemma denied_message:
  "interpret_ssh_error 1 ''Permission denied (publickey,password).''
     = ''SSH failed with exit code 1. Check username and password/key.''"
  by code_simp

lemma exit_code_1: "str_in ''exit code 1'' ''SSH failed with exit code 1. Check username and password/key.''"
  by code_simp

lemma refused_probe:
  "fst (probe_run (scripted refused) default_pool ''10.0.0.2'' pi_credentials 0) = refused
   \<and> fst (test_connection (scripted refused) default_pool ''10.0.0.2'' pi_credentials 0)
     = Inr \<lparr> host = ''10.0.0.2'', success = False,
              error_message = Some ''SSH connection failed - host unreachable or SSH not running. Ensure SSH server is running on the target host.'',
              connection_time = 3, auth_method = None \<rparr>"
  by (simp add: run_scripted pi_credentials_def refused_def refused_message)

text \<open>
  Claim C4, as amended. When the ssh process of a probe ends with a non-zero exit code,
  the probe fails with the message \<open>_interpret_ssh_error\<close> builds from the
  classification table: the text for the exit code (255 unreachable, 5 and 6
  authentication, 130 interrupted, and \<open>SSH failed with exit code N\<close> for any other
  \<open>N\<close>), followed by the guidance for the first of the phrases \<open>permission denied\<close>,
  \<open>connection refused\<close>, \<open>no route to host\<close>, \<open>timeout\<close> found in stderr. When
  the subprocess exceeds the connection timeout the message is
  \<open>Connection timeout after T seconds\<close>, which no exit code and no stderr text make the
  classification produce, so it differs from every authentication failure message. When
  the subprocess raises anything else, the message is the text of the exception.
\<close>

theorem failed_probe_messages:
  "(\<forall>code out err.
      fst (probe_run sys pool h creds w) = Inr (CompletedProcess code out err) \<and> code \<noteq> 0
      \<longrightarrow> (\<exists>r. fst (test_connection sys pool h creds w) = Inr r \<and> \<not> success r
               \<and> error_message r = Some (interpret_ssh_error code err)))
   \<and> classified (interpret_ssh_error c err')
   \<and> prefix (base_error c) (interpret_ssh_error c err')
   \<and> base_error 255 = ''SSH connection failed - host unreachable or SSH not running''
   \<and> base_error 5 = ''SSH authentication failed - invalid credentials''
   \<and> base_error 6 = ''SSH authentication failed - permission denied''
   \<and> (c \<notin> {255, 5, 6, 130} \<longrightarrow>
        str_in (''exit code '' @ str_int c) (interpret_ssh_error c err'))
   \<and> (str_in ''permission denied'' (lower err') \<longrightarrow>
        interpret_ssh_error c err' = base_error c @ ''. Check username and password/key.'')
   \<and> (\<not> str_in ''permission denied'' (lower err')
        \<and> str_in ''connection refused'' (lower err') \<longrightarrow>
        interpret_ssh_error c err'
          = base_error c @ ''. Ensure SSH server is running on the target host.'')
   \<and> (\<not> str_in ''permission denied'' (lower err')
        \<and> \<not> str_in ''connection refused'' (lower err')
        \<and> str_in ''no route to host'' (lower err') \<longrightarrow>
        interpret_ssh_error c err' = base_error c @ ''. Check network connectivity.'')
   \<and> (\<not> str_in ''permission denied'' (lower err')
        \<and> \<not> str_in ''connection refused'' (lower err')
        \<and> \<not> str_in ''no route to host'' (lower err')
        \<and> str_in ''timeout'' (lower err') \<longrightarrow>
        interpret_ssh_error c err'
          = base_error c @ ''. Connection timed out - check network and SSH configuration.'')
   \<and> (\<forall>e. fst (probe_run sys pool h creds w) = Inl e \<and> exc_is TimeoutExpired e
      \<longrightarrow> (\<exists>r. fst (test_connection sys pool h creds w) = Inr r \<and> \<not> success r
               \<and> error_message r
                   = Some (''Connection timeout after '' @ str_int (connection_timeout pool)
                             @ '' seconds'')))
   \<and> \<not> classified (''Connection timeout after '' @ str_int (connection_timeout pool)
                       @ '' seconds'')
   \<and> (\<forall>e. fst (probe_run sys pool h creds w) = Inl e \<and> \<not> exc_is TimeoutExpired e
      \<longrightarrow> (\<exists>r. fst (test_connection sys pool h creds w) = Inr r \<and> \<not> success r
               \<and> error_message r = Some (exc_str e)))"
proof -
  have "classified (interpret_ssh_error c err')"
    unfolding classified_def by blast
  moreover have "prefix (base_error c) (interpret_ssh_error c err')"
    using interpret_ssh_error_suffix [of c err'] by (auto simp: prefix_def)
  moreover have "c \<notin> {255, 5, 6, 130} \<longrightarrow>
        str_in (''exit code '' @ str_int c) (interpret_ssh_error c err')"
    using exit_code_in_generic by blast
  moreover note timeout_message_not_classified
    [of "str_int (connection_timeout pool) @ '' seconds''"]
  ultimately show ?thesis
    by (simp add: test_connection_cases failed_connection_def base_error_cases
        interpret_ssh_error_def)
qed

theorem failed_probe_messages_witness:
  "fst (probe_run (scripted refused) default_pool ''10.0.0.2'' pi_credentials 0) = refused
   \<and> fst (test_connection (scripted refused) default_pool ''10.0.0.2'' pi_credentials 0)
     = Inr \<lparr> host = ''10.0.0.2'', success = False,
              error_message = Some ''SSH connection failed - host unreachable or SSH not running. Ensure SSH server is running on the target host.'',
              connection_time = 3, auth_method = None \<rparr>
   \<and> interpret_ssh_error 1 ''Permission denied (publickey,password).''
     = ''SSH failed with exit code 1. Check username and password/key.''
   \<and> str_in ''exit code 1'' (interpret_ssh_error 1 ''Permission denied (publickey,password).'')"
  using failed_probe_messages
    [where sys = "scripted refused" and pool = default_pool and h = "''10.0.0.2''"
       and creds = pi_credentials and w = 0 and c = 1
       and err' = "''Permission denied (publickey,password).''"]
    refused_probe
  by (simp add: denied_message exit_code_1)

text \<open>
  The claim as stated fails for a probe that ends in an exception other than the timeout:
  when \<open>sshpass\<close> is not installed, the message is the text of the \<open>OSError\<close>, which
  the classification table does not produce.
\<close>

theorem unclassified_exception_message:
  "fst (test_connection
          (scripted (Inl (PyExc OSError ''[Errno 2] No such file or directory: sshpass'')))
          default_pool ''10.0.0.1'' pi_credentials 0)
     = Inr \<lparr> host = ''10.0.0.1'', success = False,
              error_message = Some ''[Errno 2] No such file or directory: sshpass'',
              connection_time = 0, auth_method = None \<rparr>
   \<and> \<not> classified ''[Errno 2] No such file or directory: sshpass''"
proof -
  have "\<not> classified ''[Errno 2] No such file or directory: sshpass''"
  proof
    assume "classified ''[Errno 2] No such file or directory: sshpass''"
    from classified_shape [OF this] show False by simp
  qed
  then show ?thesis
    by (simp add: run_scripted pi_credentials_def)
qed

section \<open>Dictionaries\<close>

lemma map_of_dict_set: "map_of (dict_set k v d) = (map_of d)(k \<mapsto> v)"
  by (induction d) auto

lemma key_list_dict_set:
  "map fst (dict_set k v d) = (if k \<in> fst ` set d then map fst d else map fst d @ [k])"
  by (induction k v d rule: dict_set.induct) (simp_all add: image_iff)

lemma keys_dict_set: "fst ` set (dict_set k v d) = insert k (fst ` set d)"
proof -
  have "set (map fst (dict_set k v d)) = insert k (fst ` set d)"
    unfolding key_list_dict_set by auto
  then show ?thesis by simp
qed

lemma distinct_dict_set: "distinct (map fst d) \<Longrightarrow> distinct (map fst (dict_set k v d))"
  by (simp add: key_list_dict_set)

lemma store_keys:
  "fst ` set (fold (\<lambda>(h, f). dict_set h (g h f)) fs acc) = fst ` set acc \<union> fst ` set fs"
  by (induction fs arbitrary: acc) (simp_all add: keys_dict_set case_prod_unfold)

lemma store_distinct:
  "distinct (map fst acc) \<Longrightarrow> distinct (map fst (fold (\<lambda>(h, f). dict_set h (g h f)) fs acc))"
  by (induction fs arbitrary: acc) (auto simp: distinct_dict_set)

lemma store_other:
  "k \<notin> set (map fst fs) \<Longrightarrow> map_of (fold (\<lambda>(h, f). dict_set h (g h f)) fs acc) k = map_of acc k"
  by (induction fs arbitrary: acc) (auto simp: map_of_dict_set)

lemma store_lookup:
  "distinct (map fst fs) \<Longrightarrow> (k, f) \<in> set fs
     \<Longrightarrow> map_of (fold (\<lambda>(h, f). dict_set h (g h f)) fs acc) k = Some (g k f)"
proof (induction fs arbitrary: acc)
  case Nil
  then show ?case by simp
next
  case (Cons a fs)
  obtain h' f' where a: "a = (h', f')" by (cases a)
  show ?case
  proof (cases "(k, f) = a")
    case True
    with Cons.prems a have "k \<notin> set (map fst fs)" by auto
    with True a show ?thesis by (simp add: store_other map_of_dict_set)
  next
    case False
    with Cons.prems have "(k, f) \<in> set fs" "distinct (map fst fs)" by auto
    with Cons.IH show ?thesis by (simp add: a)
  qed
qed

lemma set_dict_set: "set (dict_set k v d) \<subseteq> insert (k, v) (set d)"
  by (induction k v d rule: dict_set.induct) auto

section \<open>The parallel dispatcher returns one result for each host\<close>

lemma as_completed_mset:
  assumes "completion_order order (length futures)"
  shows "mset (as_completed order futures) = mset futures"
proof -
  have "mset (map (\<lambda>i. futures ! i) order) = image_mset (\<lambda>i. futures ! i) (mset order)"
    by simp
  also have "\<dots> = image_mset (\<lambda>i. futures ! i) (mset [0..<length futures])"
    using assms by (simp add: completion_order_def)
  also have "\<dots> = mset (map (\<lambda>i. futures ! i) [0..<length futures])"
    by simp
  also have "\<dots> = mset futures"
    by (simp add: map_nth)
  finally show ?thesis by (simp add: as_completed_def)
qed

lemma as_completed_set:
  "completion_order order (length futures) \<Longrightarrow> set (as_completed order futures) = set futures"
  by (metis as_completed_mset set_mset_mset)

lemma as_completed_distinct:
  assumes "completion_order order (length futures)" "distinct (map fst futures)"
  shows "distinct (map fst (as_completed order futures))"
proof -
  have "mset (map fst (as_completed order futures)) = mset (map fst futures)"
    using as_completed_mset [OF assms(1)] by (metis mset_map)
  then show ?thesis using assms(2) by (metis mset_eq_imp_distinct_iff)
qed

lemma collect_connections_fold:
  "collect_connections fs acc = fold (\<lambda>(h, f). dict_set h (stored_connection h f)) fs acc"
  by (induction fs acc rule: collect_connections.induct) (simp_all add: stored_connection_def)

lemma keys_length:
  assumes "distinct (map fst xs)" "distinct (map fst ys)" "set (map fst xs) = set (map fst ys)"
  shows "length xs = length ys"
proof -
  have "length (map fst xs) = card (set (map fst xs))"
    using assms(1) by (metis distinct_card)
  also have "\<dots> = length (map fst ys)"
    using assms(2,3) by (metis distinct_card)
  finally show ?thesis by simp
qed

lemma test_multiple_connections_complete:
  assumes "0 < max_workers" "distinct (map fst hosts_credentials)"
    "completion_order order (length hosts_credentials)"
  shows "\<exists>results. test_multiple_connections run_test hosts_credentials max_workers order = Inr results
     \<and> distinct (map fst results)
     \<and> set (map fst results) = set (map fst hosts_credentials)
     \<and> length results = length hosts_credentials
     \<and> (\<forall>(h, creds) \<in> set hosts_credentials.
           dict_get results h = Some (stored_connection h (run_test h creds)))"
proof -
  define futures where "futures = map (\<lambda>(h, creds). (h, run_test h creds)) hosts_credentials"
  define completed where "completed = as_completed order futures"
  define results where "results = collect_connections completed []"
  have keys: "map fst futures = map fst hosts_credentials"
    by (simp add: futures_def case_prod_unfold comp_def)
  have co: "completion_order order (length futures)"
    using assms(3) by (simp add: futures_def)
  have dd: "distinct (map fst completed)"
    unfolding completed_def using co assms(2) keys by (simp add: as_completed_distinct)
  have sd: "set completed = set futures"
    unfolding completed_def using co by (rule as_completed_set)
  have r: "test_multiple_connections run_test hosts_credentials max_workers order = Inr results"
    using assms(1) by (simp add: test_multiple_connections_def results_def completed_def futures_def)
  have d: "distinct (map fst results)"
    by (simp add: results_def collect_connections_fold store_distinct)
  have "set (map fst results) = set (map fst completed)"
    by (simp add: results_def collect_connections_fold store_keys)
  also have "\<dots> = set (map fst hosts_credentials)"
    using sd keys by (metis set_map)
  finally have s: "set (map fst results) = set (map fst hosts_credentials)" .
  have l: "length results = length hosts_credentials"
    using d assms(2) s by (rule keys_length)
  have e: "dict_get results h = Some (stored_connection h (run_test h creds))"
    if "(h, creds) \<in> set hosts_credentials" for h creds
  proof -
    from that have "(h, run_test h creds) \<in> set futures"
      by (force simp: futures_def)
    then have "(h, run_test h creds) \<in> set completed" using sd by simp
    with dd show ?thesis
      by (simp add: results_def dict_get_def collect_connections_fold store_lookup)
  qed
  from r d s l e show ?thesis by blast
qed


lemma submit_commands_fallback:
  "credentials_map \<noteq> [] \<Longrightarrow>
     submit_commands run_command credentials_map timeout hosts_commands
       = Inr (map (\<lambda>(h, cmd). (h, run_command h cmd (credentials_for credentials_map h) timeout))
                hosts_commands)"
proof (induction hosts_commands)
  case Nil
  then show ?case by simp
next
  case (Cons a hosts_commands)
  obtain h cmd where a: "a = (h, cmd)" by (cases a)
  obtain k c rest where cm: "credentials_map = (k, c) # rest"
    using Cons.prems by (cases credentials_map) auto
  show ?case
    using Cons.IH [OF Cons.prems]
    by (simp add: a first_credentials_def credentials_for_def cm split: option.split)
qed

lemma submit_commands_no_credentials:
  "hosts_commands \<noteq> [] \<Longrightarrow>
     submit_commands run_command [] timeout hosts_commands
       = Inl (PyExc IndexError ''list index out of range'')"
  by (cases hosts_commands) (auto simp: first_credentials_def)

lemma collect_commands_fold:
  "fst ` set fs \<subseteq> fst ` set hosts_commands \<Longrightarrow>
     collect_commands hosts_commands fs acc
       = Inr (fold (\<lambda>(h, f). dict_set h (stored_command h (the (dict_get hosts_commands h)) f))
                fs acc)"
proof (induction fs arbitrary: acc)
  case Nil
  then show ?case by simp
next
  case (Cons a fs)
  obtain h f where a: "a = (h, f)" by (cases a)
  from Cons.prems a have "h \<in> fst ` set hosts_commands" by auto
  then obtain cmd where c: "dict_get hosts_commands h = Some cmd"
    unfolding dict_get_def by (metis map_of_eq_None_iff not_Some_eq)
  from Cons.prems have sub: "fst ` set fs \<subseteq> fst ` set hosts_commands" by auto
  show ?case
    by (cases f) (simp_all add: a c Cons.IH [OF sub] stored_command_def)
qed

lemma execute_parallel_commands_complete:
  assumes "0 < max_workers" "distinct (map fst hosts_commands)"
    "completion_order order (length hosts_commands)"
    "credentials_map \<noteq> []"
  shows "\<exists>results.
     execute_parallel_commands run_command hosts_commands credentials_map max_workers timeout order
       = Inr results
     \<and> distinct (map fst results)
     \<and> set (map fst results) = set (map fst hosts_commands)
     \<and> length results = length hosts_commands
     \<and> (\<forall>(h, cmd) \<in> set hosts_commands.
           dict_get results h
             = Some (stored_command h cmd
                       (run_command h cmd (credentials_for credentials_map h) timeout)))"
proof -
  define futures where
    "futures = map (\<lambda>(h, cmd). (h, run_command h cmd (credentials_for credentials_map h) timeout))
                 hosts_commands"
  define completed where "completed = as_completed order futures"
  define results where
    "results = fold (\<lambda>(h, f). dict_set h (stored_command h (the (dict_get hosts_commands h)) f))
                 completed []"
  have keys: "map fst futures = map fst hosts_commands"
    by (simp add: futures_def case_prod_unfold comp_def)
  have co: "completion_order order (length futures)"
    using assms(3) by (simp add: futures_def)
  have dd: "distinct (map fst completed)"
    unfolding completed_def using co assms(2) keys by (simp add: as_completed_distinct)
  have sd: "set completed = set futures"
    unfolding completed_def using co by (rule as_completed_set)
  have sk: "fst ` set completed = fst ` set hosts_commands"
    using sd keys by (metis set_map)
  have r: "execute_parallel_commands run_command hosts_commands credentials_map max_workers
             timeout order = Inr results"
    using assms(1,4) sk
    by (simp add: execute_parallel_commands_def submit_commands_fallback collect_commands_fold
        results_def completed_def futures_def)
  have d: "distinct (map fst results)"
    by (simp add: results_def store_distinct)
  have s: "set (map fst results) = set (map fst hosts_commands)"
    using sk by (simp add: results_def store_keys)
  have l: "length results = length hosts_commands"
    using d assms(2) s by (rule keys_length)
  have e: "dict_get results h
             = Some (stored_command h cmd
                       (run_command h cmd (credentials_for credentials_map h) timeout))"
    if "(h, cmd) \<in> set hosts_commands" for h cmd
  proof -
    from that have "(h, run_command h cmd (credentials_for credentials_map h) timeout) \<in> set futures"
      by (force simp: futures_def)
    then have m: "(h, run_command h cmd (credentials_for credentials_map h) timeout) \<in> set completed"
      using sd by simp
    have c: "dict_get hosts_commands h = Some cmd"
      using that assms(2) by (simp add: dict_get_def)
    show ?thesis
      unfolding results_def dict_get_def
      using store_lookup [OF dd m, where g = "\<lambda>h f. stored_command h (the (dict_get hosts_commands h)) f"] c
      by (simp add: dict_get_def)
  qed
  from r d s l e show ?thesis by blast
qed

lemma empty_batch:
  assumes "0 < max_workers" "completion_order order 0"
  shows "execute_parallel_commands run_command [] credentials_map max_workers timeout order = Inr []"
  using assms
  by (simp add: execute_parallel_commands_def completion_order_def as_completed_def)

lemma execute_parallel_commands_IndexError:
  assumes "0 < max_workers" "hosts_commands \<noteq> []"
  shows "execute_parallel_commands run_command hosts_commands [] max_workers timeout order
           = Inl (PyExc IndexError ''list index out of range'')"
  using assms by (simp add: execute_parallel_commands_def submit_commands_no_credentials)


lemma scenario_first:
  "scenario_test ''10.0.0.1'' pi_credentials
     = Inr \<lparr> host = ''10.0.0.1'', success = True, error_message = None,
              connection_time = 3, auth_method = Some ''password'' \<rparr>"
  by (simp add: scenario_test_def pool_test_def run_scripted pi_credentials_def)

lemma scenario_second:
  "scenario_test ''10.0.0.2'' pi_credentials
     = Inr \<lparr> host = ''10.0.0.2'', success = False,
              error_message = Some ''SSH connection failed - host unreachable or SSH not running. Ensure SSH server is running on the target host.'',
              connection_time = 3, auth_method = None \<rparr>"
  using refused_probe by (simp add: scenario_test_def pool_test_def)

lemma scenario_third:
  "scenario_test ''10.0.0.3'' pi_credentials = Inl (PyExc OtherException ''worker lost'')"
  by (simp add: scenario_test_def)

lemma scenario_uptime:
  "scenario_command ''10.0.0.1'' ''uptime'' pi_credentials 60
     = Inr \<lparr> c_host = ''10.0.0.1'', command = ''uptime'', c_success = True,
              stdout = ''up 3 days'', stderr = [], exit_code = 0, execution_time = 3 \<rparr>"
  by (simp add: scenario_command_def pool_command_def run_scripted pi_credentials_def)

lemma scenario_lost:
  "scenario_command ''10.0.0.9'' ''uptime'' pi_credentials 60
     = Inl (PyExc OtherException ''worker lost'')"
  by (simp add: scenario_command_def)

lemma three_hosts_order:
  "distinct (map fst three_hosts) \<and> completion_order [2, 0, 1] (length three_hosts)"
  by (simp add: three_hosts_def completion_order_def upt_rec)

lemma two_commands_order:
  "distinct (map fst [(''10.0.0.1'', ''uptime''), (''10.0.0.9'', ''uptime'')])
   \<and> completion_order [1, 0] (length [(''10.0.0.1'', ''uptime''), (''10.0.0.9'', ''uptime'')])"
  by (simp add: completion_order_def upt_rec)

lemma three_hosts_results:
  "test_multiple_connections scenario_test three_hosts 5 [2, 0, 1]
     = Inr [(''10.0.0.3'',
             \<lparr> host = ''10.0.0.3'', success = False,
               error_message = Some ''Test execution failed: worker lost'',
               connection_time = 0, auth_method = None \<rparr>),
            (''10.0.0.1'',
             \<lparr> host = ''10.0.0.1'', success = True, error_message = None,
               connection_time = 3, auth_method = Some ''password'' \<rparr>),
            (''10.0.0.2'',
             \<lparr> host = ''10.0.0.2'', success = False,
               error_message = Some ''SSH connection failed - host unreachable or SSH not running. Ensure SSH server is running on the target host.'',
               connection_time = 3, auth_method = None \<rparr>)]"
  by (simp add: three_hosts_def test_multiple_connections_def as_completed_def
      scenario_first scenario_second scenario_third failed_connection_def)

lemma two_commands_results:
  "execute_parallel_commands scenario_command
        [(''10.0.0.1'', ''uptime''), (''10.0.0.9'', ''uptime'')]
        [(''10.0.0.1'', pi_credentials)] 5 60 [1, 0]
     = Inr [(''10.0.0.9'',
             \<lparr> c_host = ''10.0.0.9'', command = ''uptime'', c_success = False,
               stdout = [], stderr = ''Execution failed: worker lost'', exit_code = - 1,
               execution_time = 0 \<rparr>),
            (''10.0.0.1'',
             \<lparr> c_host = ''10.0.0.1'', command = ''uptime'', c_success = True,
               stdout = ''up 3 days'', stderr = [], exit_code = 0, execution_time = 3 \<rparr>)]"
  by (simp add: execute_parallel_commands_def first_credentials_def dict_get_def
      as_completed_def scenario_uptime scenario_lost failed_command_def)

text \<open>
  Claim C1, as amended. For a batch of distinct hosts, a pool of at least one worker and
  any order of completion, \<open>test_multiple_connections\<close> returns a mapping with exactly
  one entry for each requested host: the result of the host's probe, or, when
  retrieving it raises, a failure result for that host alone. The same holds for
  \<open>execute_parallel_commands\<close> when \<open>credentials_map\<close> is not empty (or the batch
  is).
\<close>

theorem one_result_per_host:
  "(0 < max_workers \<and> distinct (map fst hosts_credentials)
      \<and> completion_order order (length hosts_credentials) \<longrightarrow>
      (\<exists>results.
         test_multiple_connections run_test hosts_credentials max_workers order = Inr results
         \<and> distinct (map fst results)
         \<and> set (map fst results) = set (map fst hosts_credentials)
         \<and> length results = length hosts_credentials
         \<and> (\<forall>(h, creds) \<in> set hosts_credentials.
               dict_get results h = Some (stored_connection h (run_test h creds)))))
   \<and> (0 < max_workers \<and> distinct (map fst hosts_commands)
      \<and> completion_order order' (length hosts_commands)
      \<and> (credentials_map \<noteq> [] \<or> hosts_commands = []) \<longrightarrow>
      (\<exists>results.
         execute_parallel_commands run_command hosts_commands credentials_map max_workers
           timeout order' = Inr results
         \<and> distinct (map fst results)
         \<and> set (map fst results) = set (map fst hosts_commands)
         \<and> length results = length hosts_commands
         \<and> (\<forall>(h, cmd) \<in> set hosts_commands.
               dict_get results h
                 = Some (stored_command h cmd
                           (run_command h cmd (credentials_for credentials_map h) timeout)))))
   \<and> stored_connection h (Inr r) = r
   \<and> stored_connection h (Inl e) = failed_connection h (''Test execution failed: '' @ exc_str e)
   \<and> stored_command h cmd (Inr r') = r'
   \<and> stored_command h cmd (Inl e) = failed_command h cmd (''Execution failed: '' @ exc_str e)"
proof -
  have commands: "\<exists>results.
         execute_parallel_commands run_command hosts_commands credentials_map max_workers
           timeout order' = Inr results
         \<and> distinct (map fst results)
         \<and> set (map fst results) = set (map fst hosts_commands)
         \<and> length results = length hosts_commands
         \<and> (\<forall>(h, cmd) \<in> set hosts_commands.
               dict_get results h
                 = Some (stored_command h cmd
                           (run_command h cmd (credentials_for credentials_map h) timeout)))"
    if a: "0 < max_workers" "distinct (map fst hosts_commands)"
      "completion_order order' (length hosts_commands)"
      and b: "credentials_map \<noteq> [] \<or> hosts_commands = []"
  proof (cases "credentials_map = []")
    case False
    with a show ?thesis by (rule execute_parallel_commands_complete)
  next
    case True
    with b have "hosts_commands = []" by simp
    with a show ?thesis by (simp add: empty_batch)
  qed
  show ?thesis
    using test_multiple_connections_complete
      [of max_workers hosts_credentials order run_test] commands
    by (simp add: stored_connection_def stored_command_def)
qed

theorem one_result_per_host_witness:
  "0 < (5::int) \<and> distinct (map fst three_hosts)
   \<and> completion_order [2, 0, 1] (length three_hosts)
   \<and> test_multiple_connections scenario_test three_hosts 5 [2, 0, 1]
     = Inr [(''10.0.0.3'',
             \<lparr> host = ''10.0.0.3'', success = False,
               error_message = Some ''Test execution failed: worker lost'',
               connection_time = 0, auth_method = None \<rparr>),
            (''10.0.0.1'',
             \<lparr> host = ''10.0.0.1'', success = True, error_message = None,
               connection_time = 3, auth_method = Some ''password'' \<rparr>),
            (''10.0.0.2'',
             \<lparr> host = ''10.0.0.2'', success = False,
               error_message = Some ''SSH connection failed - host unreachable or SSH not running. Ensure SSH server is running on the target host.'',
               connection_time = 3, auth_method = None \<rparr>)]
   \<and> distinct (map fst [(''10.0.0.1'', ''uptime''), (''10.0.0.9'', ''uptime'')])
   \<and> completion_order [1, 0] (length [(''10.0.0.1'', ''uptime''), (''10.0.0.9'', ''uptime'')])
   \<and> execute_parallel_commands scenario_command
        [(''10.0.0.1'', ''uptime''), (''10.0.0.9'', ''uptime'')]
        [(''10.0.0.1'', pi_credentials)] 5 60 [1, 0]
     = Inr [(''10.0.0.9'',
             \<lparr> c_host = ''10.0.0.9'', command = ''uptime'', c_success = False,
               stdout = [], stderr = ''Execution failed: worker lost'', exit_code = - 1,
               execution_time = 0 \<rparr>),
            (''10.0.0.1'',
             \<lparr> c_host = ''10.0.0.1'', command = ''uptime'', c_success = True,
               stdout = ''up 3 days'', stderr = [], exit_code = 0, execution_time = 3 \<rparr>)]"
proof -
  note t = one_result_per_host
    [where max_workers = 5 and hosts_credentials = three_hosts and order = "[2, 0, 1]"
       and run_test = scenario_test and run_command = scenario_command
       and hosts_commands = "[(''10.0.0.1'', ''uptime''), (''10.0.0.9'', ''uptime'')]"
       and credentials_map = "[(''10.0.0.1'', pi_credentials)]" and timeout = 60
       and order' = "[1, 0]" and h = "''10.0.0.3''" and cmd = "''uptime''"
       and e = "PyExc OtherException ''worker lost''"
       and r = "failed_connection [] []" and r' = "failed_command [] [] []"]
  from t three_hosts_order two_commands_order three_hosts_results two_commands_results
  show ?thesis by simp
qed

text \<open>
  The claim as stated fails for \<open>execute_parallel_commands\<close> with an empty
  \<open>credentials_map\<close>: the fallback \<open>list(credentials_map.values())[0]\<close> raises an
  \<open>IndexError\<close> while the first host is submitted, and no mapping is returned. A pool
  of zero workers is refused by the executor before any host is submitted.
\<close>

theorem no_mapping_without_credentials:
  "execute_parallel_commands scenario_command [(''10.0.0.1'', ''uptime'')] [] 5 60 [0]
     = Inl (PyExc IndexError ''list index out of range'')
   \<and> test_multiple_connections scenario_test three_hosts 0 [0, 1, 2]
     = Inl (PyExc ValueError ''max_workers must be greater than 0'')"
  by (simp add: execute_parallel_commands_def first_credentials_def
      test_multiple_connections_def)

lemma two_credentials_first:
  "two_credentials = (''10.0.0.1'', pi_credentials) # [(''10.0.0.2'', admin_credentials)]
   \<and> dict_get two_credentials ''10.0.0.9'' = None
   \<and> dict_get two_credentials ''10.0.0.2'' = Some admin_credentials"
  by (simp add: two_credentials_def dict_get_def)

lemma whoami_batch:
  "execute_parallel_commands whoami [(''10.0.0.9'', ''whoami''), (''10.0.0.2'', ''whoami'')]
       two_credentials 3 60 [1, 0]
     = Inr [(''10.0.0.2'',
             \<lparr> c_host = ''10.0.0.2'', command = ''whoami'', c_success = True,
               stdout = ''admin'', stderr = [], exit_code = 0, execution_time = 0 \<rparr>),
            (''10.0.0.9'',
             \<lparr> c_host = ''10.0.0.9'', command = ''whoami'', c_success = True,
               stdout = ''pi'', stderr = [], exit_code = 0, execution_time = 0 \<rparr>)]"
  by (simp add: execute_parallel_commands_def first_credentials_def two_credentials_def
      dict_get_def as_completed_def whoami_def pi_credentials_def admin_credentials_def)

lemma whoami_order:
  "distinct (map fst [(''10.0.0.9'', ''whoami''), (''10.0.0.2'', ''whoami'')])
   \<and> completion_order [1, 0]
         (length [(''10.0.0.9'', ''whoami''), (''10.0.0.2'', ''whoami'')])"
  by (simp add: completion_order_def upt_rec)

text \<open>
  Claim C8, as amended. The credentials handed to the worker of a host without an entry
  in \<open>credentials_map\<close> are the first value of \<open>credentials_map\<close> in insertion
  order, and the result stored for that host is what its worker returns with them. With
  an empty \<open>credentials_map\<close>, at least one host to run on and a pool of at least one
  worker, the call raises an \<open>IndexError\<close> and returns no mapping. With a pool of no
  worker the executor raises its \<open>ValueError\<close> before any host is looked at.
\<close>

theorem fallback_is_first_value:
  "(credentials_map = (k, c) # rest \<and> dict_get credentials_map h = None
      \<longrightarrow> credentials_for credentials_map h = c)
   \<and> (credentials_map \<noteq> [] \<longrightarrow>
        submit_commands run_command credentials_map timeout hosts_commands
          = Inr (map (\<lambda>(h, cmd).
                        (h, run_command h cmd (credentials_for credentials_map h) timeout))
                   hosts_commands))
   \<and> (0 < max_workers \<and> distinct (map fst hosts_commands)
        \<and> completion_order order (length hosts_commands)
        \<and> credentials_map = (k, c) # rest \<and> (h, cmd) \<in> set hosts_commands
        \<and> dict_get credentials_map h = None \<longrightarrow>
        (\<exists>results.
           execute_parallel_commands run_command hosts_commands credentials_map max_workers
             timeout order = Inr results
           \<and> dict_get results h = Some (stored_command h cmd (run_command h cmd c timeout))))
   \<and> (0 < max_workers \<and> hosts_commands \<noteq> [] \<longrightarrow>
        execute_parallel_commands run_command hosts_commands [] max_workers timeout order
          = Inl (PyExc IndexError ''list index out of range''))
   \<and> (max_workers \<le> 0 \<longrightarrow>
        execute_parallel_commands run_command hosts_commands credentials_map max_workers
          timeout order
          = Inl (PyExc ValueError ''max_workers must be greater than 0''))"
proof -
  have first: "credentials_for credentials_map h = c"
    if "credentials_map = (k, c) # rest" "dict_get credentials_map h = None"
    using that by (auto simp: credentials_for_def)
  have stored: "\<exists>results.
           execute_parallel_commands run_command hosts_commands credentials_map max_workers
             timeout order = Inr results
           \<and> dict_get results h = Some (stored_command h cmd (run_command h cmd c timeout))"
    if a: "0 < max_workers" "distinct (map fst hosts_commands)"
      "completion_order order (length hosts_commands)"
      and m: "credentials_map = (k, c) # rest" and i: "(h, cmd) \<in> set hosts_commands"
      and n: "dict_get credentials_map h = None"
  proof -
    from m have ne: "credentials_map \<noteq> []" by simp
    from execute_parallel_commands_complete [OF a ne, of run_command timeout] i
      first [OF m n]
    show ?thesis by force
  qed
  have raised: "execute_parallel_commands run_command hosts_commands credentials_map
        max_workers timeout order
      = Inl (PyExc ValueError ''max_workers must be greater than 0'')"
    if "max_workers \<le> 0"
    using that by (simp add: execute_parallel_commands_def)
  show ?thesis
    using first stored raised
      submit_commands_fallback [of credentials_map run_command timeout hosts_commands]
      execute_parallel_commands_IndexError
        [of max_workers hosts_commands run_command timeout order]
    by blast
qed

theorem fallback_is_first_value_witness:
  "two_credentials = (''10.0.0.1'', pi_credentials) # [(''10.0.0.2'', admin_credentials)]
   \<and> dict_get two_credentials ''10.0.0.9'' = None
   \<and> credentials_for two_credentials ''10.0.0.9'' = pi_credentials
   \<and> 0 < (3::int)
   \<and> distinct (map fst [(''10.0.0.9'', ''whoami''), (''10.0.0.2'', ''whoami'')])
   \<and> completion_order [1, 0]
         (length [(''10.0.0.9'', ''whoami''), (''10.0.0.2'', ''whoami'')])
   \<and> execute_parallel_commands whoami
         [(''10.0.0.9'', ''whoami''), (''10.0.0.2'', ''whoami'')] two_credentials 3 60 [1, 0]
     = Inr [(''10.0.0.2'',
             \<lparr> c_host = ''10.0.0.2'', command = ''whoami'', c_success = True,
               stdout = ''admin'', stderr = [], exit_code = 0, execution_time = 0 \<rparr>),
            (''10.0.0.9'',
             \<lparr> c_host = ''10.0.0.9'', command = ''whoami'', c_success = True,
               stdout = ''pi'', stderr = [], exit_code = 0, execution_time = 0 \<rparr>)]
   \<and> execute_parallel_commands whoami
         [(''10.0.0.9'', ''whoami''), (''10.0.0.2'', ''whoami'')] [] 3 60 [1, 0]
     = Inl (PyExc IndexError ''list index out of range'')"
proof -
  note t = fallback_is_first_value
    [where credentials_map = two_credentials and k = "''10.0.0.1''" and c = pi_credentials
       and rest = "[(''10.0.0.2'', admin_credentials)]" and h = "''10.0.0.9''"
       and cmd = "''whoami''" and run_command = whoami and timeout = 60
       and hosts_commands = "[(''10.0.0.9'', ''whoami''), (''10.0.0.2'', ''whoami'')]"
       and max_workers = 3 and order = "[1, 0]"]
  from t two_credentials_first whoami_order whoami_batch show ?thesis by simp
qed

text \<open>
  The claim as stated fails: with an empty \<open>credentials_map\<close> and a host to run on,
  a pool of no worker makes the call raise the \<open>ValueError\<close> of the executor, not an
  \<open>IndexError\<close>.
\<close>

theorem no_worker_no_IndexError:
  "execute_parallel_commands whoami [(''10.0.0.9'', ''whoami'')] [] 0 60 [0]
     = Inl (PyExc ValueError ''max_workers must be greater than 0'')"
  by (simp add: execute_parallel_commands_def)

section \<open>Rounding to a double\<close>

lemma binary_exponent_bounds:
  assumes "0 < x"
  shows "2 powi binary_exponent x \<le> x \<and> x < 2 powi (binary_exponent x + 1)"
proof -
  obtain p q where pq: "quotient_of x = (p, q)" by (cases "quotient_of x")
  have q: "0 < q" using pq by (rule quotient_of_denom_pos)
  have x: "x = of_int p / of_int q" using pq by (rule quotient_of_div)
  have p: "0 < p"
    using assms q unfolding x by (simp add: zero_less_divide_iff)
  define bp where "bp = bitlen p"
  define bq where "bq = bitlen q"
  have bp1: "1 \<le> bp" and bq1: "1 \<le> bq"
    using p q bitlen_eq_zero_iff [of p] bitlen_eq_zero_iff [of q] bitlen_nonneg [of p]
      bitlen_nonneg [of q]
    by (auto simp: bp_def bq_def)
  from bitlen_bounds [OF p] have pl: "(2::int) ^ nat (bp - 1) \<le> p" and pu: "p < 2 ^ nat bp"
    by (simp_all add: bp_def)
  from bitlen_bounds [OF q] have ql: "(2::int) ^ nat (bq - 1) \<le> q" and qu: "q < 2 ^ nat bq"
    by (simp_all add: bq_def)
  have P: "(2::rat) powi (bp - 1) \<le> of_int p" "of_int p < (2::rat) powi bp"
  proof -
    have "(of_int ((2::int) ^ nat (bp - 1)) :: rat) \<le> of_int p"
      using pl by (simp only: of_int_le_iff)
    then show "(2::rat) powi (bp - 1) \<le> of_int p"
      using bp1 by (simp add: power_int_def)
    have "(of_int p :: rat) < of_int ((2::int) ^ nat bp)"
      using pu by (simp only: of_int_less_iff)
    then show "of_int p < (2::rat) powi bp"
      using bp1 by (simp add: power_int_def)
  qed
  have Q: "(2::rat) powi (bq - 1) \<le> of_int q" "of_int q < (2::rat) powi bq"
  proof -
    have "(of_int ((2::int) ^ nat (bq - 1)) :: rat) \<le> of_int q"
      using ql by (simp only: of_int_le_iff)
    then show "(2::rat) powi (bq - 1) \<le> of_int q"
      using bq1 by (simp add: power_int_def)
    have "(of_int q :: rat) < of_int ((2::int) ^ nat bq)"
      using qu by (simp only: of_int_less_iff)
    then show "of_int q < (2::rat) powi bq"
      using bq1 by (simp add: power_int_def)
  qed
  have qpos: "(0::rat) < of_int q" using q by simp
  have pw: "(0::rat) < 2 powi n" for n :: int by simp
  define k where "k = bp - bq"
  have upper: "x < 2 powi (k + 1)"
  proof -
    have "of_int p < (2::rat) powi bp" by (rule P)
    also have "\<dots> = 2 powi (k + 1) * 2 powi (bq - 1)"
      by (simp add: k_def flip: power_int_add)
    also have "\<dots> \<le> 2 powi (k + 1) * of_int q"
      using Q(1) by (intro mult_left_mono) simp_all
    finally show ?thesis
      unfolding x using qpos by (simp add: pos_divide_less_eq)
  qed
  have lower: "2 powi (k - 1) \<le> x"
  proof -
    have "(2::rat) powi (k - 1) * of_int q \<le> 2 powi (k - 1) * 2 powi bq"
      using Q(2) by (intro mult_left_mono) simp_all
    also have "\<dots> = 2 powi (bp - 1)"
      by (simp add: k_def flip: power_int_add)
    also have "\<dots> \<le> of_int p" by (rule P)
    finally show ?thesis
      unfolding x using qpos by (simp add: pos_le_divide_eq)
  qed
  have be: "binary_exponent x = (if 2 powi k \<le> x then k else k - 1)"
    by (simp add: binary_exponent_def pq k_def bp_def bq_def Let_def)
  show ?thesis
  proof (cases "2 powi k \<le> x")
    case True
    with upper be show ?thesis by simp
  next
    case False
    with lower be show ?thesis by simp
  qed
qed

lemma round_half_even_error: "\<bar>of_int (round_half_even y) - y\<bar> \<le> 1 / 2"
proof -
  have "of_int \<lfloor>y\<rfloor> \<le> y" "y < of_int \<lfloor>y\<rfloor> + 1" by linarith+
  then show ?thesis
    by (auto simp: round_half_even_def Let_def)
qed

lemma round_double_error: "\<bar>round_double x - x\<bar> \<le> \<bar>x\<bar> / 2 ^ 53"
proof (cases "x = 0")
  case True
  then show ?thesis by (simp add: round_double_def)
next
  case False
  define a where "a = \<bar>x\<bar>"
  have a: "0 < a" using False by (simp add: a_def)
  define k where "k = binary_exponent a"
  define s :: rat where "s = 2 powi (k - 52)"
  define n where "n = round_half_even (a / s)"
  have s: "0 < s" by (simp add: s_def)
  have rd: "round_double x = sgn x * (of_int n * s)"
    using False by (simp add: round_double_def Let_def a_def k_def s_def n_def mult.assoc)
  have xa: "x = sgn x * a" by (simp add: a_def mult_sgn_abs)
  have "round_double x - x = sgn x * (of_int n * s - a)"
    using rd xa by (metis right_diff_distrib)
  then have "\<bar>round_double x - x\<bar> = \<bar>of_int n * s - a\<bar>"
    using False by (simp add: abs_mult abs_sgn_eq)
  also have "of_int n * s - a = (of_int n - a / s) * s"
    using s by (simp add: field_simps)
  also have "\<bar>(of_int n - a / s) * s\<bar> = \<bar>of_int n - a / s\<bar> * s"
    using s by (simp add: abs_mult)
  also have "\<dots> \<le> 1 / 2 * s"
    using round_half_even_error [of "a / s"] s unfolding n_def
    by (intro mult_right_mono) simp_all
  also have "1 / 2 * s = 2 powi k / 2 ^ 53"
  proof -
    have h: "(2::rat) powi k = 2 powi (k - 52) * 2 ^ 52"
    proof -
      have "(2::rat) powi k = 2 powi (k - 52 + 52)" by simp
      also have "\<dots> = 2 powi (k - 52) * 2 powi 52"
        by (subst power_int_add) simp_all
      finally show ?thesis by simp
    qed
    show ?thesis unfolding s_def h by simp
  qed
  also have "\<dots> \<le> a / 2 ^ 53"
    using binary_exponent_bounds [OF a] by (simp add: k_def divide_right_mono)
  finally show ?thesis by (simp add: a_def)
qed

lemma rate_error:
  assumes "0 \<le> s" "0 < t"
  shows "\<bar>float_mul (int_truediv s t) 100 - 100 * of_int s / of_int t\<bar>
           \<le> (100 * of_int s / of_int t) / 2 ^ 51"
proof -
  define a :: rat where "a = of_int s / of_int t"
  define q where "q = round_double a"
  define r where "r = round_double (q * 100)"
  define eps :: rat where "eps = 1 / 2 ^ 53"
  have a: "0 \<le> a" using assms by (simp add: a_def)
  have e: "0 < eps" "eps \<le> 1" by (simp_all add: eps_def)
  have q: "\<bar>q - a\<bar> \<le> a * eps"
    using round_double_error [of a] a by (simp add: q_def eps_def)
  then have qa: "\<bar>q\<bar> \<le> a + a * eps" using a by linarith
  have "\<bar>r - q * 100\<bar> \<le> \<bar>q * 100\<bar> * eps"
    using round_double_error [of "q * 100"] by (simp add: r_def eps_def)
  also have "\<dots> = 100 * \<bar>q\<bar> * eps" by (simp add: abs_mult)
  also have "\<dots> \<le> 100 * (a + a * eps) * eps"
    using qa e by (intro mult_right_mono mult_left_mono) simp_all
  finally have r: "\<bar>r - q * 100\<bar> \<le> 100 * (a + a * eps) * eps" .
  have "a * eps * eps \<le> a * eps * 1"
    using a e by (intro mult_left_mono) simp_all
  then have sq: "a * eps * eps \<le> a * eps" by simp
  have "r - 100 * a = (r - q * 100) + 100 * (q - a)" by (simp add: algebra_simps)
  then have "\<bar>r - 100 * a\<bar> \<le> \<bar>r - q * 100\<bar> + \<bar>100 * (q - a)\<bar>"
    by (simp only: abs_triangle_ineq)
  also have "\<bar>100 * (q - a)\<bar> = 100 * \<bar>q - a\<bar>" by (simp only: abs_mult abs_numeral)
  finally have "\<bar>r - 100 * a\<bar> \<le> \<bar>r - q * 100\<bar> + 100 * \<bar>q - a\<bar>" .
  also have "\<dots> \<le> 100 * (a + a * eps) * eps + 100 * (a * eps)"
    using r q by (intro add_mono mult_left_mono) simp_all
  also have "\<dots> = 100 * (2 * (a * eps) + a * eps * eps)"
    by (simp add: algebra_simps)
  also have "\<dots> \<le> 100 * (4 * (a * eps))"
  proof -
    have "0 \<le> a * eps" using a e by simp
    with sq have "2 * (a * eps) + a * eps * eps \<le> 4 * (a * eps)" by linarith
    then show ?thesis by (intro mult_left_mono) simp_all
  qed
  also have "\<dots> = (100 * a) / 2 ^ 51"
    by (simp add: eps_def)
  finally show ?thesis
    by (simp add: r_def q_def a_def float_mul_def int_truediv_def)
qed

lemma round_double_exact:
  "round_double 1 = 1" "round_double 100 = 100" "round_double 50 = 50"
  "round_double (1 / 2) = 1 / 2"
  by code_simp+

lemma rate_of_all:
  "t \<noteq> 0 \<Longrightarrow> float_mul (int_truediv t t) 100 = 100"
  by (simp add: float_mul_def int_truediv_def round_double_exact)

lemma rate_of_none: "float_mul (int_truediv 0 t) 100 = 0"
  by (simp add: float_mul_def int_truediv_def round_double_def)

lemma rate_of_one_in_two: "float_mul (int_truediv 1 2) 100 = 50"
  by (simp add: float_mul_def int_truediv_def round_double_exact)

lemma rate_of_one_in_three:
  "float_mul (int_truediv 1 3) 100 = 2345624805922133 / 70368744177664"
  by code_simp

section \<open>The connectivity summary\<close>

lemma comprehension_filter:
  "[h. (h, r) \<leftarrow> xs, P r] = map fst (filter (\<lambda>(h, r). P r) xs)"
  by (induction xs) auto

lemma filter_split_length:
  "length (filter (\<lambda>(h, r). success r) xs) + length (filter (\<lambda>(h, r). \<not> success r) xs)
     = length xs"
  by (induction xs) auto

lemma summarize_counts:
  "total_nodes (summarize results)
     = successful_connections (summarize results) + failed_connections (summarize results)"
  using filter_split_length [of results]
  by (simp add: summarize_def comprehension_filter Let_def)

lemma summarize_rate:
  "success_rate (summarize results) =
     (if total_nodes (summarize results) = 0 then 0
      else float_mul
             (int_truediv (successful_connections (summarize results))
                (total_nodes (summarize results))) 100)"
  by (simp add: summarize_def Let_def)

lemma summarize_failed:
  assumes "distinct (map fst results)"
  shows "h \<in> set (failed_hosts (summarize results))
           \<longleftrightarrow> (\<exists>r. dict_get results h = Some r \<and> \<not> success r)"
proof -
  have "h \<in> set (failed_hosts (summarize results)) \<longleftrightarrow> (\<exists>r. (h, r) \<in> set results \<and> \<not> success r)"
    by (force simp: summarize_def comprehension_filter Let_def)
  also have "\<dots> \<longleftrightarrow> (\<exists>r. dict_get results h = Some r \<and> \<not> success r)"
    using assms by (auto simp: dict_get_def)
  finally show ?thesis .
qed

lemma test_multiple_connections_distinct:
  "test_multiple_connections run_test hc max_workers order = Inr results
     \<Longrightarrow> distinct (map fst results)"
  by (auto simp: test_multiple_connections_def collect_connections_fold store_distinct
      split: if_splits)

lemma build_hosts_credentials_ok:
  assumes "\<forall>(n, node) \<in> set cluster_config.
             truthy (dict_get node ''ip'') \<longrightarrow>
             truthy (dict_get node ''password'') \<or> truthy (dict_get node ''ssh_key_path'')"
  shows "\<exists>hc. build_hosts_credentials cluster_config acc = Inr hc"
  using assms
proof (induction cluster_config arbitrary: acc)
  case Nil
  then show ?case by simp
next
  case (Cons a cluster_config)
  obtain n node where a: "a = (n, node)" by (cases a)
  from Cons.prems have rest: "\<forall>(n, node) \<in> set cluster_config.
             truthy (dict_get node ''ip'') \<longrightarrow>
             truthy (dict_get node ''password'') \<or> truthy (dict_get node ''ssh_key_path'')"
    by simp
  from Cons.prems a have here: "truthy (dict_get node ''ip'') \<longrightarrow>
             truthy (dict_get node ''password'') \<or> truthy (dict_get node ''ssh_key_path'')"
    by simp
  show ?case
  proof (cases "truthy (dict_get node ''ip'')")
    case True
    with here have "truthy (dict_get node ''password'') \<or> truthy (dict_get node ''ssh_key_path'')"
      by simp
    then show ?thesis
      using True Cons.IH [OF rest]
      by (simp add: a SSHCredentials_init_def post_init_def Let_def)
  next
    case False
    then show ?thesis
      using Cons.IH [OF rest] by (simp add: a Let_def)
  qed
qed

lemma build_hosts_credentials_distinct:
  "distinct (map fst acc) \<Longrightarrow> build_hosts_credentials cluster_config acc = Inr hc
     \<Longrightarrow> distinct (map fst hc)"
proof (induction cluster_config arbitrary: acc)
  case Nil
  then show ?case by simp
next
  case (Cons a cluster_config)
  obtain n node where a: "a = (n, node)" by (cases a)
  show ?case
  proof (cases "truthy (dict_get node ''ip'')")
    case False
    with Cons.prems(2) have "build_hosts_credentials cluster_config acc = Inr hc"
      by (simp add: a Let_def)
    with Cons.IH Cons.prems(1) show ?thesis by blast
  next
    case True
    with Cons.prems(2) obtain creds h where
      "build_hosts_credentials cluster_config (dict_set h creds acc) = Inr hc"
      by (auto simp: a Let_def split: sum.splits)
    moreover have "distinct (map fst (dict_set h creds acc))"
      using Cons.prems(1) by (rule distinct_dict_set)
    ultimately show ?thesis using Cons.IH by blast
  qed
qed

lemma pool_test_returns:
  "\<exists>r. pool_test sys pool ws h creds = Inr r \<and> (\<not> success r \<longrightarrow> (\<exists>m. error_message r = Some m))"
  by (simp add: pool_test_def test_connection_cases failed_connection_def
      split: sum.split CompletedProcess.split)

lemma pool_summary_messages:
  assumes b: "build_hosts_credentials cluster_config [] = Inr hc"
    and o: "completion_order order (length hc)"
  shows "\<exists>s. validate_cluster_connectivity (pool_test sys pool ws) order cluster_config = Inr s
     \<and> total_nodes s = int (length hc)
     \<and> (\<forall>h \<in> set (failed_hosts s).
           \<exists>r m. dict_get (detailed_results s) h = Some r \<and> \<not> success r
                 \<and> error_message r = Some m)"
proof -
  have d: "distinct (map fst hc)"
    using build_hosts_credentials_distinct [OF _ b] by simp
  from test_multiple_connections_complete [OF _ d o, of 5 "pool_test sys pool ws"]
  obtain results where
    t: "test_multiple_connections (pool_test sys pool ws) hc 5 order = Inr results"
    and dr: "distinct (map fst results)"
    and k: "set (map fst results) = set (map fst hc)"
    and l: "length results = length hc"
    and e: "\<forall>(h, creds) \<in> set hc.
              dict_get results h = Some (stored_connection h (pool_test sys pool ws h creds))"
    by auto
  define s where "s = summarize results"
  have v: "validate_cluster_connectivity (pool_test sys pool ws) order cluster_config = Inr s"
    by (simp add: validate_cluster_connectivity_def b t s_def)
  have n: "total_nodes s = int (length hc)"
    by (simp add: s_def summarize_def Let_def l)
  have det: "detailed_results s = results"
    by (simp add: s_def summarize_def Let_def)
  have m: "\<exists>r m. dict_get (detailed_results s) h = Some r \<and> \<not> success r
                 \<and> error_message r = Some m"
    if "h \<in> set (failed_hosts s)" for h
  proof -
    from that obtain r where r: "dict_get results h = Some r" "\<not> success r"
      using summarize_failed [OF dr, of h] by (auto simp: s_def)
    then have "(h, r) \<in> set results"
      unfolding dict_get_def by (simp add: map_of_SomeD)
    then have "h \<in> set (map fst results)"
      by force
    with k obtain creds where c: "(h, creds) \<in> set hc" by auto
    with e have "dict_get results h = Some (stored_connection h (pool_test sys pool ws h creds))"
      by auto
    moreover obtain r' where "pool_test sys pool ws h creds = Inr r'"
      "\<not> success r' \<longrightarrow> (\<exists>m. error_message r' = Some m)"
      using pool_test_returns by blast
    ultimately show ?thesis
      using r by (auto simp: det stored_connection_def)
  qed
  from v n m show ?thesis by blast
qed

text \<open>
  Claim C6, as amended. Whenever \<open>validate_cluster_connectivity\<close> returns a summary:
  \<open>total_nodes\<close> is the number of results and the sum of the successful and the failed
  connections; \<open>success_rate\<close> is 0 when there is no node, and otherwise the double
  that \<open>successful_connections / total_nodes * 100\<close> computes: the quotient rounded
  to a double, times 100, rounded again. It differs from
  \<open>100 * successful_connections / total_nodes\<close> by at most that number divided by
  \<open>2^51\<close>, it is 100 when every connection succeeds and 0 when none does;
  \<open>failed_hosts\<close> lists exactly the hosts whose entry in \<open>detailed_results\<close> has
  \<open>success = False\<close>. The call returns a summary whenever every node with an address
  has a password or a key path. With the probes of the pool itself, \<open>total_nodes\<close> is
  the number of distinct addresses and the entry of every failed host carries an error
  message.
\<close>

theorem connectivity_summary:
  "(validate_cluster_connectivity run_test order cluster_config = Inr s \<longrightarrow>
      total_nodes s = successful_connections s + failed_connections s
      \<and> total_nodes s = int (length (detailed_results s))
      \<and> failed_connections s = int (length (failed_hosts s))
      \<and> (total_nodes s = 0 \<longrightarrow> success_rate s = 0)
      \<and> (total_nodes s \<noteq> 0 \<longrightarrow>
           success_rate s
             = round_double
                 (round_double (of_int (successful_connections s) / of_int (total_nodes s))
                    * 100)
           \<and> \<bar>success_rate s
                 - 100 * of_int (successful_connections s) / of_int (total_nodes s)\<bar>
               \<le> 100 * of_int (successful_connections s) / of_int (total_nodes s) / 2 ^ 51
           \<and> (successful_connections s = total_nodes s \<longrightarrow> success_rate s = 100)
           \<and> (successful_connections s = 0 \<longrightarrow> success_rate s = 0))
      \<and> (\<forall>h. h \<in> set (failed_hosts s)
               \<longleftrightarrow> (\<exists>r. dict_get (detailed_results s) h = Some r \<and> \<not> success r)))
   \<and> ((\<forall>(n, node) \<in> set cluster_config.
          truthy (dict_get node ''ip'') \<longrightarrow>
          truthy (dict_get node ''password'') \<or> truthy (dict_get node ''ssh_key_path''))
        \<longrightarrow> (\<exists>s. validate_cluster_connectivity run_test order cluster_config = Inr s))
   \<and> (build_hosts_credentials cluster_config [] = Inr hc
        \<and> completion_order order (length hc)
        \<longrightarrow> (\<exists>s. validate_cluster_connectivity (pool_test sys pool ws) order cluster_config
                     = Inr s
                 \<and> total_nodes s = int (length hc)
                 \<and> (\<forall>h \<in> set (failed_hosts s).
                       \<exists>r m. dict_get (detailed_results s) h = Some r \<and> \<not> success r
                             \<and> error_message r = Some m)))"
proof (intro conjI impI)
  assume v: "validate_cluster_connectivity run_test order cluster_config = Inr s"
  then obtain hc results where
    t: "test_multiple_connections run_test hc 5 order = Inr results" and s: "s = summarize results"
    by (auto simp: validate_cluster_connectivity_def split: sum.splits)
  have d: "distinct (map fst results)"
    using t by (rule test_multiple_connections_distinct)
  have dr: "detailed_results s = results"
    by (simp add: s summarize_def Let_def)
  show "total_nodes s = successful_connections s + failed_connections s"
    unfolding s by (rule summarize_counts)
  show "total_nodes s = int (length (detailed_results s))"
    by (simp add: s summarize_def Let_def)
  show "failed_connections s = int (length (failed_hosts s))"
    by (simp add: s summarize_def Let_def)
  show "success_rate s = 0" if "total_nodes s = 0"
    using that by (simp add: s summarize_rate)
  have nn: "0 \<le> successful_connections s" "0 \<le> total_nodes s"
    by (simp_all add: s summarize_def Let_def)
  show "success_rate s
          = round_double
              (round_double (of_int (successful_connections s) / of_int (total_nodes s))
                 * 100)"
    if "total_nodes s \<noteq> 0"
    using that by (simp add: s summarize_rate float_mul_def int_truediv_def)
  show "\<bar>success_rate s
             - 100 * of_int (successful_connections s) / of_int (total_nodes s)\<bar>
          \<le> 100 * of_int (successful_connections s) / of_int (total_nodes s) / 2 ^ 51"
    if "total_nodes s \<noteq> 0"
  proof -
    from that nn have "0 < total_nodes s" by simp
    from rate_error [OF nn(1) this] that show ?thesis
      by (simp add: s summarize_rate)
  qed
  show "success_rate s = 100"
    if "total_nodes s \<noteq> 0" "successful_connections s = total_nodes s"
    using that by (simp add: s summarize_rate rate_of_all)
  show "success_rate s = 0" if "total_nodes s \<noteq> 0" "successful_connections s = 0"
    using that by (simp add: s summarize_rate rate_of_none)
  show "\<forall>h. h \<in> set (failed_hosts s)
               \<longleftrightarrow> (\<exists>r. dict_get (detailed_results s) h = Some r \<and> \<not> success r)"
    unfolding dr using summarize_failed [OF d] by (simp add: s)
next
  assume "\<forall>(n, node) \<in> set cluster_config.
          truthy (dict_get node ''ip'') \<longrightarrow>
          truthy (dict_get node ''password'') \<or> truthy (dict_get node ''ssh_key_path'')"
  from build_hosts_credentials_ok [OF this]
  obtain hc where "build_hosts_credentials cluster_config [] = Inr hc" by blast
  then show "\<exists>s. validate_cluster_connectivity run_test order cluster_config = Inr s"
    by (simp add: validate_cluster_connectivity_def test_multiple_connections_def Let_def)
next
  assume "build_hosts_credentials cluster_config [] = Inr hc
            \<and> completion_order order (length hc)"
  then show "\<exists>s. validate_cluster_connectivity (pool_test sys pool ws) order cluster_config
                     = Inr s
                 \<and> total_nodes s = int (length hc)
                 \<and> (\<forall>h \<in> set (failed_hosts s).
                       \<exists>r m. dict_get (detailed_results s) h = Some r \<and> \<not> success r
                             \<and> error_message r = Some m)"
    using pool_summary_messages by blast
qed



lemma two_nodes_credentials:
  "build_hosts_credentials two_nodes []
     = Inr [(''10.0.0.1'', pi_credentials),
            (''10.0.0.2'', \<lparr> username = ''admin'', password = Some ''secret'',
                             private_key_path = None, port = 22 \<rparr>)]"
  by (simp add: two_nodes_def dict_get_def SSHCredentials_init_def post_init_def
      pi_credentials_def)

lemma three_nodes_credentials: "build_hosts_credentials three_nodes [] = Inr three_hosts"
  by (simp add: three_nodes_def three_hosts_def dict_get_def SSHCredentials_init_def
      post_init_def pi_credentials_def)

lemma scenario_second_admin:
  "scenario_test ''10.0.0.2'' \<lparr> username = ''admin'', password = Some ''secret'',
                             private_key_path = None, port = 22 \<rparr>
     = Inr \<lparr> host = ''10.0.0.2'', success = False,
              error_message = Some ''SSH connection failed - host unreachable or SSH not running. Ensure SSH server is running on the target host.'',
              connection_time = 3, auth_method = None \<rparr>"
  by (simp add: scenario_test_def pool_test_def run_scripted refused_def refused_message)

lemma two_nodes_summary:
  "validate_cluster_connectivity scenario_test [1, 0] two_nodes
     = Inr \<lparr> total_nodes = 2, successful_connections = 1, failed_connections = 1,
              success_rate = 50, successful_hosts = [''10.0.0.1''],
              failed_hosts = [''10.0.0.2''],
              detailed_results =
                [(''10.0.0.2'',
                  \<lparr> host = ''10.0.0.2'', success = False,
                    error_message = Some ''SSH connection failed - host unreachable or SSH not running. Ensure SSH server is running on the target host.'',
                    connection_time = 3, auth_method = None \<rparr>),
                 (''10.0.0.1'',
                  \<lparr> host = ''10.0.0.1'', success = True, error_message = None,
                    connection_time = 3, auth_method = Some ''password'' \<rparr>)] \<rparr>"
  by (simp add: validate_cluster_connectivity_def two_nodes_credentials
      test_multiple_connections_def as_completed_def scenario_first scenario_second_admin
      summarize_def rate_of_one_in_two)

lemma three_nodes_summary:
  "validate_cluster_connectivity scenario_test [0, 1, 2] three_nodes
     = Inr \<lparr> total_nodes = 3, successful_connections = 1, failed_connections = 2,
              success_rate = 2345624805922133 / 70368744177664,
              successful_hosts = [''10.0.0.1''],
              failed_hosts = [''10.0.0.2'', ''10.0.0.3''],
              detailed_results =
                [(''10.0.0.1'',
                  \<lparr> host = ''10.0.0.1'', success = True, error_message = None,
                    connection_time = 3, auth_method = Some ''password'' \<rparr>),
                 (''10.0.0.2'',
                  \<lparr> host = ''10.0.0.2'', success = False,
                    error_message = Some ''SSH connection failed - host unreachable or SSH not running. Ensure SSH server is running on the target host.'',
                    connection_time = 3, auth_method = None \<rparr>),
                 (''10.0.0.3'',
                  \<lparr> host = ''10.0.0.3'', success = False,
                    error_message = Some ''Test execution failed: worker lost'',
                    connection_time = 0, auth_method = None \<rparr>)] \<rparr>"
  by (simp add: validate_cluster_connectivity_def three_nodes_credentials three_hosts_def
      test_multiple_connections_def as_completed_def scenario_first scenario_second
      scenario_third failed_connection_def summarize_def rate_of_one_in_three)

lemma no_nodes_summary:
  "validate_cluster_connectivity scenario_test [] []
     = Inr \<lparr> total_nodes = 0, successful_connections = 0, failed_connections = 0,
              success_rate = 0, successful_hosts = [], failed_hosts = [],
              detailed_results = [] \<rparr>"
  by (simp add: validate_cluster_connectivity_def test_multiple_connections_def
      as_completed_def summarize_def)

lemma pool_refused:
  "pw \<noteq> [] \<Longrightarrow>
     pool_test (scripted refused) default_pool (\<lambda>h. 0) h
       \<lparr> username = u, password = Some pw, private_key_path = None, port = 22 \<rparr>
     = Inr \<lparr> host = h, success = False,
              error_message = Some ''SSH connection failed - host unreachable or SSH not running. Ensure SSH server is running on the target host.'',
              connection_time = 3, auth_method = None \<rparr>"
  by (simp add: pool_test_def run_scripted refused_def refused_message)

lemma two_nodes_refused:
  "validate_cluster_connectivity (pool_test (scripted refused) default_pool (\<lambda>h. 0)) [1, 0]
       two_nodes
     = Inr \<lparr> total_nodes = 2, successful_connections = 0, failed_connections = 2,
              success_rate = 0, successful_hosts = [],
              failed_hosts = [''10.0.0.2'', ''10.0.0.1''],
              detailed_results =
                [(''10.0.0.2'',
                  \<lparr> host = ''10.0.0.2'', success = False,
                    error_message = Some ''SSH connection failed - host unreachable or SSH not running. Ensure SSH server is running on the target host.'',
                    connection_time = 3, auth_method = None \<rparr>),
                 (''10.0.0.1'',
                  \<lparr> host = ''10.0.0.1'', success = False,
                    error_message = Some ''SSH connection failed - host unreachable or SSH not running. Ensure SSH server is running on the target host.'',
                    connection_time = 3, auth_method = None \<rparr>)] \<rparr>"
  by (simp add: validate_cluster_connectivity_def two_nodes_credentials
      test_multiple_connections_def as_completed_def pool_refused pi_credentials_def
      summarize_def rate_of_none)

lemma one_node_credentials:
  "build_hosts_credentials one_node [] = Inr [(''10.0.0.1'', pi_credentials)]"
  by (simp add: one_node_def dict_get_def SSHCredentials_init_def post_init_def
      pi_credentials_def)

lemma one_node_summary:
  "validate_cluster_connectivity scenario_test [0] one_node
     = Inr \<lparr> total_nodes = 1, successful_connections = 1, failed_connections = 0,
              success_rate = 100, successful_hosts = [''10.0.0.1''], failed_hosts = [],
              detailed_results =
                [(''10.0.0.1'',
                  \<lparr> host = ''10.0.0.1'', success = True, error_message = None,
                    connection_time = 3, auth_method = Some ''password'' \<rparr>)] \<rparr>"
  by (simp add: validate_cluster_connectivity_def one_node_credentials
      test_multiple_connections_def as_completed_def scenario_first summarize_def
      rate_of_all)

lemma three_nodes_passwords:
  "\<forall>(n, node) \<in> set three_nodes.
      truthy (dict_get node ''ip'') \<longrightarrow>
      truthy (dict_get node ''password'') \<or> truthy (dict_get node ''ssh_key_path'')"
  by (simp add: three_nodes_def dict_get_def)

theorem connectivity_summary_witness:
  "validate_cluster_connectivity scenario_test [0, 1, 2] three_nodes
     = Inr \<lparr> total_nodes = 3, successful_connections = 1, failed_connections = 2,
              success_rate = 2345624805922133 / 70368744177664,
              successful_hosts = [''10.0.0.1''],
              failed_hosts = [''10.0.0.2'', ''10.0.0.3''],
              detailed_results =
                [(''10.0.0.1'',
                  \<lparr> host = ''10.0.0.1'', success = True, error_message = None,
                    connection_time = 3, auth_method = Some ''password'' \<rparr>),
                 (''10.0.0.2'',
                  \<lparr> host = ''10.0.0.2'', success = False,
                    error_message = Some ''SSH connection failed - host unreachable or SSH not running. Ensure SSH server is running on the target host.'',
                    connection_time = 3, auth_method = None \<rparr>),
                 (''10.0.0.3'',
                  \<lparr> host = ''10.0.0.3'', success = False,
                    error_message = Some ''Test execution failed: worker lost'',
                    connection_time = 0, auth_method = None \<rparr>)] \<rparr>
   \<and> (3::int) = 1 + 2
   \<and> (2345624805922133 / 70368744177664 :: rat)
       = round_double (round_double (of_int 1 / of_int 3) * 100)
   \<and> \<bar>2345624805922133 / 70368744177664 - 100 * of_int 1 / of_int 3 :: rat\<bar>
       \<le> 100 * of_int 1 / of_int 3 / 2 ^ 51
   \<and> validate_cluster_connectivity scenario_test [1, 0] two_nodes
     = Inr \<lparr> total_nodes = 2, successful_connections = 1, failed_connections = 1,
              success_rate = 50, successful_hosts = [''10.0.0.1''],
              failed_hosts = [''10.0.0.2''],
              detailed_results =
                [(''10.0.0.2'',
                  \<lparr> host = ''10.0.0.2'', success = False,
                    error_message = Some ''SSH connection failed - host unreachable or SSH not running. Ensure SSH server is running on the target host.'',
                    connection_time = 3, auth_method = None \<rparr>),
                 (''10.0.0.1'',
                  \<lparr> host = ''10.0.0.1'', success = True, error_message = None,
                    connection_time = 3, auth_method = Some ''password'' \<rparr>)] \<rparr>
   \<and> validate_cluster_connectivity scenario_test [] []
     = Inr \<lparr> total_nodes = 0, successful_connections = 0, failed_connections = 0,
              success_rate = 0, successful_hosts = [], failed_hosts = [],
              detailed_results = [] \<rparr>
   \<and> validate_cluster_connectivity scenario_test [0] one_node
     = Inr \<lparr> total_nodes = 1, successful_connections = 1, failed_connections = 0,
              success_rate = 100, successful_hosts = [''10.0.0.1''], failed_hosts = [],
              detailed_results =
                [(''10.0.0.1'',
                  \<lparr> host = ''10.0.0.1'', success = True, error_message = None,
                    connection_time = 3, auth_method = Some ''password'' \<rparr>)] \<rparr>
   \<and> truthy (dict_get [(''ip'', ''10.0.0.3''), (''password'', ''raspberry'')] ''password'')
   \<and> build_hosts_credentials three_nodes [] = Inr three_hosts
   \<and> completion_order [0, 1, 2] (length three_hosts)
   \<and> build_hosts_credentials two_nodes []
     = Inr [(''10.0.0.1'', pi_credentials),
            (''10.0.0.2'', \<lparr> username = ''admin'', password = Some ''secret'',
                             private_key_path = None, port = 22 \<rparr>)]
   \<and> completion_order [1, 0] 2
   \<and> validate_cluster_connectivity (pool_test (scripted refused) default_pool (\<lambda>h. 0)) [1, 0]
       two_nodes
     = Inr \<lparr> total_nodes = 2, successful_connections = 0, failed_connections = 2,
              success_rate = 0, successful_hosts = [],
              failed_hosts = [''10.0.0.2'', ''10.0.0.1''],
              detailed_results =
                [(''10.0.0.2'',
                  \<lparr> host = ''10.0.0.2'', success = False,
                    error_message = Some ''SSH connection failed - host unreachable or SSH not running. Ensure SSH server is running on the target host.'',
                    connection_time = 3, auth_method = None \<rparr>),
                 (''10.0.0.1'',
                  \<lparr> host = ''10.0.0.1'', success = False,
                    error_message = Some ''SSH connection failed - host unreachable or SSH not running. Ensure SSH server is running on the target host.'',
                    connection_time = 3, auth_method = None \<rparr>)] \<rparr>"
proof -
  note a = connectivity_summary
    [where run_test = scenario_test and order = "[0, 1, 2]" and cluster_config = three_nodes
       and s = "\<lparr> total_nodes = 3, successful_connections = 1, failed_connections = 2,
              success_rate = 2345624805922133 / 70368744177664,
              successful_hosts = [''10.0.0.1''],
              failed_hosts = [''10.0.0.2'', ''10.0.0.3''],
              detailed_results =
                [(''10.0.0.1'',
                  \<lparr> host = ''10.0.0.1'', success = True, error_message = None,
                    connection_time = 3, auth_method = Some ''password'' \<rparr>),
                 (''10.0.0.2'',
                  \<lparr> host = ''10.0.0.2'', success = False,
                    error_message = Some ''SSH connection failed - host unreachable or SSH not running. Ensure SSH server is running on the target host.'',
                    connection_time = 3, auth_method = None \<rparr>),
                 (''10.0.0.3'',
                  \<lparr> host = ''10.0.0.3'', success = False,
                    error_message = Some ''Test execution failed: worker lost'',
                    connection_time = 0, auth_method = None \<rparr>)] \<rparr>"
       and sys = "scripted refused" and pool = default_pool and ws = "\<lambda>h. 0"
       and hc = three_hosts]
  have o: "completion_order [0, 1, 2] (length three_hosts)"
    by (simp add: completion_order_def three_hosts_def upt_rec)
  from a three_nodes_summary
  have r: "(2345624805922133 / 70368744177664 :: rat)
             = round_double (round_double (of_int 1 / of_int 3) * 100)
           \<and> \<bar>2345624805922133 / 70368744177664 - 100 * of_int 1 / of_int 3 :: rat\<bar>
               \<le> 100 * of_int 1 / of_int 3 / 2 ^ 51"
    by simp
  have o2: "completion_order [1, 0] 2"
    by (simp add: completion_order_def upt_rec)
  have p: "truthy (dict_get [(''ip'', ''10.0.0.3''), (''password'', ''raspberry'')] ''password'')"
    by (simp add: dict_get_def)
  from r o o2 p three_nodes_summary two_nodes_summary no_nodes_summary one_node_summary
    three_nodes_credentials two_nodes_credentials two_nodes_refused
  show ?thesis by simp
qed

text \<open>
  The claim as stated fails: with one successful connection out of three the code
  returns the double \<open>33.33333333333333\<close>, which is
  \<open>2345624805922133 / 2^46\<close> and not \<open>100 * 1 / 3\<close>.
\<close>

theorem rate_of_one_in_three_is_rounded:
  "validate_cluster_connectivity scenario_test [2, 0, 1] three_nodes
     = Inr \<lparr> total_nodes = 3, successful_connections = 1, failed_connections = 2,
              success_rate = 2345624805922133 / 70368744177664,
              successful_hosts = [''10.0.0.1''],
              failed_hosts = [''10.0.0.3'', ''10.0.0.2''],
              detailed_results =
                [(''10.0.0.3'',
                  \<lparr> host = ''10.0.0.3'', success = False,
                    error_message = Some ''Test execution failed: worker lost'',
                    connection_time = 0, auth_method = None \<rparr>),
                 (''10.0.0.1'',
                  \<lparr> host = ''10.0.0.1'', success = True, error_message = None,
                    connection_time = 3, auth_method = Some ''password'' \<rparr>),
                 (''10.0.0.2'',
                  \<lparr> host = ''10.0.0.2'', success = False,
                    error_message = Some ''SSH connection failed - host unreachable or SSH not running. Ensure SSH server is running on the target host.'',
                    connection_time = 3, auth_method = None \<rparr>)] \<rparr>
   \<and> (2345624805922133 / 70368744177664 :: rat) \<noteq> 100 * 1 / 3"
  by (simp add: validate_cluster_connectivity_def three_nodes_credentials three_hosts_def
      test_multiple_connections_def as_completed_def scenario_first scenario_second
      scenario_third failed_connection_def summarize_def rate_of_one_in_three)

section \<open>Results are stored as they were produced\<close>

text \<open>
  Claim C7, as amended. No operation of the subsystem changes a credentials or result
  object after it is created: the dispatcher stores for each host exactly the result its
  worker returned, \<open>validate_cluster_connectivity\<close> returns the dispatcher's mapping
  as \<open>detailed_results\<close>, and a credential record holds the fields it was built with.
  The classes themselves are not frozen: an assignment to a field of a credential record
  succeeds.
\<close>

theorem results_stored_as_produced:
  "(0 < max_workers \<and> distinct (map fst hosts_credentials)
      \<and> completion_order order (length hosts_credentials)
      \<and> (h, creds) \<in> set hosts_credentials \<and> run_test h creds = Inr r
      \<longrightarrow> (\<exists>results.
             test_multiple_connections run_test hosts_credentials max_workers order
               = Inr results
             \<and> dict_get results h = Some r))
   \<and> (0 < max_workers \<and> distinct (map fst hosts_commands)
      \<and> completion_order order' (length hosts_commands) \<and> credentials_map \<noteq> []
      \<and> (h', cmd) \<in> set hosts_commands
      \<and> run_command h' cmd (credentials_for credentials_map h') timeout = Inr r'
      \<longrightarrow> (\<exists>results.
             execute_parallel_commands run_command hosts_commands credentials_map
               max_workers timeout order' = Inr results
             \<and> dict_get results h' = Some r'))
   \<and> (validate_cluster_connectivity run_test order cluster_config = Inr s
      \<longrightarrow> (\<exists>hc. build_hosts_credentials cluster_config [] = Inr hc
                \<and> test_multiple_connections run_test hc 5 order = Inr (detailed_results s)))
   \<and> (SSHCredentials_init (Some u) pw key p = Inr c
      \<longrightarrow> username c = u \<and> password c = pw \<and> private_key_path c = key)
   \<and> setattr_password c v = Inr (c\<lparr>password := v\<rparr>)"
proof -
  have a: "\<exists>results.
             test_multiple_connections run_test hosts_credentials max_workers order
               = Inr results
             \<and> dict_get results h = Some r"
    if "0 < max_workers" "distinct (map fst hosts_credentials)"
      "completion_order order (length hosts_credentials)"
      "(h, creds) \<in> set hosts_credentials" "run_test h creds = Inr r"
    using test_multiple_connections_complete [OF that(1-3), of run_test] that(4,5)
    by (force simp: stored_connection_def)
  have b: "\<exists>results.
             execute_parallel_commands run_command hosts_commands credentials_map
               max_workers timeout order' = Inr results
             \<and> dict_get results h' = Some r'"
    if "0 < max_workers" "distinct (map fst hosts_commands)"
      "completion_order order' (length hosts_commands)" "credentials_map \<noteq> []"
      "(h', cmd) \<in> set hosts_commands"
      "run_command h' cmd (credentials_for credentials_map h') timeout = Inr r'"
    using execute_parallel_commands_complete [OF that(1-4), of run_command timeout] that(5,6)
    by (force simp: stored_command_def)
  have c: "\<exists>hc. build_hosts_credentials cluster_config [] = Inr hc
                \<and> test_multiple_connections run_test hc 5 order = Inr (detailed_results s)"
    if "validate_cluster_connectivity run_test order cluster_config = Inr s"
    using that
    by (auto simp: validate_cluster_connectivity_def summarize_def Let_def split: sum.splits)
  have d: "username c = u \<and> password c = pw \<and> private_key_path c = key"
    if "SSHCredentials_init (Some u) pw key p = Inr c"
    using that by (auto simp: SSHCredentials_init_def post_init_def split: if_splits)
  show ?thesis
    using a b c d by (simp add: setattr_password_def SSHCredentials_frozen_def)
qed

theorem results_stored_as_produced_witness:
  "0 < (5::int) \<and> distinct (map fst three_hosts)
   \<and> completion_order [2, 0, 1] (length three_hosts)
   \<and> (''10.0.0.1'', pi_credentials) \<in> set three_hosts
   \<and> scenario_test ''10.0.0.1'' pi_credentials
       = Inr \<lparr> host = ''10.0.0.1'', success = True, error_message = None,
                connection_time = 3, auth_method = Some ''password'' \<rparr>
   \<and> (\<exists>results.
         test_multiple_connections scenario_test three_hosts 5 [2, 0, 1] = Inr results
         \<and> dict_get results ''10.0.0.1''
             = Some \<lparr> host = ''10.0.0.1'', success = True, error_message = None,
                       connection_time = 3, auth_method = Some ''password'' \<rparr>)"
proof -
  note t = results_stored_as_produced
    [where max_workers = 5 and hosts_credentials = three_hosts and order = "[2, 0, 1]"
       and run_test = scenario_test and h = "''10.0.0.1''" and creds = pi_credentials
       and r = "\<lparr> host = ''10.0.0.1'', success = True, error_message = None,
                connection_time = 3, auth_method = Some ''password'' \<rparr>"]
  have m: "(''10.0.0.1'', pi_credentials) \<in> set three_hosts"
    by (simp add: three_hosts_def)
  from t three_hosts_order m scenario_first show ?thesis by simp
qed

text \<open>
  The claim as stated fails: the dataclass is not frozen, so a record built with a
  password can have it assigned away, which leaves a record that the constructor would
  have refused.
\<close>

theorem credentials_can_be_reassigned:
  "(case SSHCredentials_init (Some ''pi'') (Some ''raspberry'') None None of
      Inl e \<Rightarrow> Inl e
    | Inr c \<Rightarrow> setattr_password c None)
     = Inr \<lparr> username = ''pi'', password = None, private_key_path = None, port = 22 \<rparr>"
  by (simp add: SSHCredentials_init_def post_init_def setattr_password_def
      SSHCredentials_frozen_def)

section \<open>Key distribution\<close>

lemma key_command_parts: "key_command k = key_command_prefix @ k @ key_command_suffix"
  by (simp add: key_command_def key_command_prefix_def key_command_suffix_def)

lemma parse_key_command_inverse:
  "CHR 0x27 \<notin> set k \<Longrightarrow> parse_key_command (key_command k) = Some k"
  by (simp add: parse_key_command_def key_command_parts Let_def)

lemma key_command_not_exit: "key_command k \<noteq> ''exit''"
  by (simp add: key_command_def)

lemma reachable_install:
  assumes "pw \<noteq> []" "CHR 0x27 \<notin> set k"
  shows "execute_command reachable pool h (key_command k)
           \<lparr> username = u, password = Some pw, private_key_path = None, port = 22 \<rparr> 60 w
         = (Inr \<lparr> c_host = h, command = key_command k, c_success = True, stdout = [],
                  stderr = [], exit_code = 0, execution_time = 1 \<rparr>,
            w\<lparr> clock := clock w + 2,
               authorized_keys := (authorized_keys w)(u @ ''@'' @ h :=
                                     authorized_keys w (u @ ''@'' @ h) @ [k]) \<rparr>)"
  using assms
  by (simp add: execute_command_def execute_command_try_def run_cmd_def ssh_cmd_def
      reachable_def remote_shell_def parse_key_command_inverse key_command_not_exit Let_def)

lemma deploy_keys_reachable:
  assumes "\<forall>(n, node) \<in> set cluster_config.
             truthy (dict_get node ''ip'') \<longrightarrow> truthy (dict_get node ''password'')"
    and "CHR 0x27 \<notin> set k"
    and "\<forall>(h, ok) \<in> set results. ok"
  shows "\<exists>res w'. deploy_keys reachable pool k cluster_config results w = (Inr res, w')
     \<and> (\<forall>(h, ok) \<in> set res. ok)
     \<and> fst ` set results \<subseteq> fst ` set res
     \<and> (\<forall>(n, node) \<in> set cluster_config.
           \<forall>h. dict_get node ''ip'' = Some h \<and> h \<noteq> [] \<longrightarrow> h \<in> fst ` set res)
     \<and> public_key_file w' = public_key_file w
     \<and> (\<forall>d. authorized_keys w' d
              = authorized_keys w d @ replicate (count_list (key_targets cluster_config) d) k)"
  using assms(1,3)
proof (induction cluster_config arbitrary: results w)
  case Nil
  then show ?case by simp
next
  case (Cons a cluster_config)
  obtain n node where a: "a = (n, node)" by (cases a)
  from Cons.prems(1) have rest: "\<forall>(n, node) \<in> set cluster_config.
             truthy (dict_get node ''ip'') \<longrightarrow> truthy (dict_get node ''password'')"
    by simp
  show ?case
  proof (cases "truthy (dict_get node ''ip'')")
    case False
    then have skip: "deploy_keys reachable pool k (a # cluster_config) results w
                 = deploy_keys reachable pool k cluster_config results w"
      and t: "key_targets (a # cluster_config) = key_targets cluster_config"
      by (auto simp: a split: option.split)
    from False have none: "\<forall>h. dict_get node ''ip'' = Some h \<and> h \<noteq> [] \<longrightarrow> P h" for P
      by (cases "dict_get node ''ip''") auto
    show ?thesis
      unfolding skip t using Cons.IH [OF rest Cons.prems(2), of w] none
      by (auto simp: a)
  next
    case True
    then obtain h where h: "dict_get node ''ip'' = Some h" "h \<noteq> []"
      by (cases "dict_get node ''ip''") auto
    from True Cons.prems(1) a have "truthy (dict_get node ''password'')" by simp
    then obtain pw where pw: "dict_get node ''password'' = Some pw" "pw \<noteq> []"
      by (cases "dict_get node ''password''") auto
    define u where "u = (case dict_get node ''username'' of None \<Rightarrow> ''pi'' | Some u \<Rightarrow> u)"
    define w1 where "w1 = w\<lparr> clock := clock w + 2,
               authorized_keys := (authorized_keys w)(u @ ''@'' @ h :=
                                     authorized_keys w (u @ ''@'' @ h) @ [k]) \<rparr>"
    have step: "deploy_keys reachable pool k (a # cluster_config) results w
                 = deploy_keys reachable pool k cluster_config (dict_set h True results) w1"
      using h pw reachable_install [OF pw(2) assms(2), of pool h u w]
      by (simp add: a SSHCredentials_init_def post_init_def u_def w1_def)
    have t: "key_targets (a # cluster_config) = (u @ ''@'' @ h) # key_targets cluster_config"
      using h by (simp add: a u_def)
    have ok: "\<forall>(h, ok) \<in> set (dict_set h True results). ok"
    proof -
      have "set (dict_set h True results) \<subseteq> insert (h, True) (set results)"
        by (rule set_dict_set)
      then show ?thesis using Cons.prems(2) by fastforce
    qed
    from Cons.IH [OF rest ok, of w1] obtain res w' where
      r: "deploy_keys reachable pool k cluster_config (dict_set h True results) w1 = (Inr res, w')"
      and oks: "\<forall>(h, ok) \<in> set res. ok"
      and sub: "fst ` set (dict_set h True results) \<subseteq> fst ` set res"
      and cov: "\<forall>(n, node) \<in> set cluster_config.
           \<forall>h. dict_get node ''ip'' = Some h \<and> h \<noteq> [] \<longrightarrow> h \<in> fst ` set res"
      and pk: "public_key_file w' = public_key_file w1"
      and ak: "\<forall>d. authorized_keys w' d
              = authorized_keys w1 d @ replicate (count_list (key_targets cluster_config) d) k"
      by blast
    have "authorized_keys w' d
              = authorized_keys w d @ replicate (count_list (key_targets (a # cluster_config)) d) k"
      for d
      using ak by (simp add: t w1_def replicate_append_same)
    moreover have "public_key_file w' = public_key_file w"
      using pk by (simp add: w1_def)
    moreover have "fst ` set results \<subseteq> fst ` set res" and here: "h \<in> fst ` set res"
      using sub by (auto simp: keys_dict_set)
    moreover have "\<forall>(n, node) \<in> set (a # cluster_config).
           \<forall>h. dict_get node ''ip'' = Some h \<and> h \<noteq> [] \<longrightarrow> h \<in> fst ` set res"
      using cov here h by (auto simp: a)
    ultimately show ?thesis
      unfolding step using r oks by blast
  qed
qed


lemma read_public_key_reachable:
  "read_public_key reachable key_path w = (Inr (strip (public_key_file w)), w)"
  by (simp add: read_public_key_def reachable_def)

lemma setup_reachable:
  assumes "\<forall>(n, node) \<in> set cluster_config.
             truthy (dict_get node ''ip'') \<longrightarrow> truthy (dict_get node ''password'')"
    and "CHR 0x27 \<notin> set (strip (public_key_file w))"
  shows "\<exists>res w'. setup_ssh_keys reachable pool cluster_config key_path w = (Inr res, w')
     \<and> (\<forall>(n, node) \<in> set cluster_config.
           \<forall>h. dict_get node ''ip'' = Some h \<and> h \<noteq> [] \<longrightarrow> dict_get res h = Some True)
     \<and> public_key_file w' = public_key_file w
     \<and> (\<forall>d. authorized_keys w' d
              = authorized_keys w d
                  @ replicate (count_list (key_targets cluster_config) d)
                      (strip (public_key_file w)))"
proof -
  from deploy_keys_reachable [OF assms, of "[]" pool w] obtain res w' where
    r: "deploy_keys reachable pool (strip (public_key_file w)) cluster_config [] w = (Inr res, w')"
    and oks: "\<forall>(h, ok) \<in> set res. ok"
    and cov: "\<forall>(n, node) \<in> set cluster_config.
           \<forall>h. dict_get node ''ip'' = Some h \<and> h \<noteq> [] \<longrightarrow> h \<in> fst ` set res"
    and pk: "public_key_file w' = public_key_file w"
    and ak: "\<forall>d. authorized_keys w' d
              = authorized_keys w d
                  @ replicate (count_list (key_targets cluster_config) d)
                      (strip (public_key_file w))"
    by auto
  have t: "dict_get res h = Some True" if "h \<in> fst ` set res" for h
  proof -
    from that obtain v where "map_of res h = Some v"
      by (metis map_of_eq_None_iff not_Some_eq)
    moreover from this have "(h, v) \<in> set res" by (rule map_of_SomeD)
    ultimately show ?thesis using oks by (auto simp: dict_get_def)
  qed
  have "\<forall>(n, node) \<in> set cluster_config.
           \<forall>h. dict_get node ''ip'' = Some h \<and> h \<noteq> [] \<longrightarrow> dict_get res h = Some True"
    using cov t by fast
  with r pk ak show ?thesis
    by (simp add: setup_ssh_keys_def read_public_key_reachable)
qed

lemma strip_latin1_space:
  "strip ([CHR 0xA0, CHR 0x20] @ ''ssh-rsa AAAA'' @ [CHR 0x85, CHR 0x0A]) = ''ssh-rsa AAAA''"
  by (simp add: strip_def isspace_def)

text \<open>
  Claim C3, as amended. The key installation command appends the key without looking for
  it. Suppose that every host is reachable and runs the command in a POSIX shell, that
  every node of \<open>cluster_config\<close> with a non-empty \<open>ip\<close> has a non-empty
  \<open>password\<close>, and that the public key (the text of the public key file without its
  leading and trailing white space) contains no single-quote character. Then every run
  of \<open>setup_ssh_keys\<close> reports success for every host and adds one more copy of the
  key to the \<open>authorized_keys\<close> of every destination, so that after the second run
  each destination holds the key twice for each of its nodes.
\<close>

theorem key_appended_on_every_run:
  "(\<forall>(n, node) \<in> set cluster_config.
      truthy (dict_get node ''ip'') \<longrightarrow> truthy (dict_get node ''password''))
   \<and> CHR 0x27 \<notin> set (strip (public_key_file w))
   \<longrightarrow> (\<exists>res1 w1 res2 w2.
          setup_ssh_keys reachable pool cluster_config key_path w = (Inr res1, w1)
          \<and> setup_ssh_keys reachable pool cluster_config key_path w1 = (Inr res2, w2)
          \<and> (\<forall>(n, node) \<in> set cluster_config.
                \<forall>h. dict_get node ''ip'' = Some h \<and> h \<noteq> [] \<longrightarrow>
                  dict_get res1 h = Some True \<and> dict_get res2 h = Some True)
          \<and> (\<forall>d. authorized_keys w1 d
                   = authorized_keys w d
                       @ replicate (count_list (key_targets cluster_config) d)
                           (strip (public_key_file w)))
          \<and> (\<forall>d. authorized_keys w2 d
                   = authorized_keys w d
                       @ replicate (2 * count_list (key_targets cluster_config) d)
                           (strip (public_key_file w))))"
proof (intro impI, elim conjE)
  assume n: "\<forall>(n, node) \<in> set cluster_config.
      truthy (dict_get node ''ip'') \<longrightarrow> truthy (dict_get node ''password'')"
    and q: "CHR 0x27 \<notin> set (strip (public_key_file w))"
  from setup_reachable [OF n q, of pool key_path] obtain res1 w1 where
    r1: "setup_ssh_keys reachable pool cluster_config key_path w = (Inr res1, w1)"
    and t1: "\<forall>(n, node) \<in> set cluster_config.
           \<forall>h. dict_get node ''ip'' = Some h \<and> h \<noteq> [] \<longrightarrow> dict_get res1 h = Some True"
    and p1: "public_key_file w1 = public_key_file w"
    and a1: "\<forall>d. authorized_keys w1 d
              = authorized_keys w d
                  @ replicate (count_list (key_targets cluster_config) d)
                      (strip (public_key_file w))"
    by blast
  from q p1 have q1: "CHR 0x27 \<notin> set (strip (public_key_file w1))" by simp
  from setup_reachable [OF n q1, of pool key_path] obtain res2 w2 where
    r2: "setup_ssh_keys reachable pool cluster_config key_path w1 = (Inr res2, w2)"
    and t2: "\<forall>(n, node) \<in> set cluster_config.
           \<forall>h. dict_get node ''ip'' = Some h \<and> h \<noteq> [] \<longrightarrow> dict_get res2 h = Some True"
    and a2: "\<forall>d. authorized_keys w2 d
              = authorized_keys w1 d
                  @ replicate (count_list (key_targets cluster_config) d)
                      (strip (public_key_file w1))"
    by blast
  have a: "\<forall>d. authorized_keys w2 d
                   = authorized_keys w d
                       @ replicate (2 * count_list (key_targets cluster_config) d)
                           (strip (public_key_file w))"
    using a1 a2 p1 by (simp add: mult_2 replicate_add)
  have t: "\<forall>(n, node) \<in> set cluster_config.
                \<forall>h. dict_get node ''ip'' = Some h \<and> h \<noteq> [] \<longrightarrow>
                  dict_get res1 h = Some True \<and> dict_get res2 h = Some True"
    using t1 t2 by fast
  from r1 r2 t a1 a show "\<exists>res1 w1 res2 w2.
          setup_ssh_keys reachable pool cluster_config key_path w = (Inr res1, w1)
          \<and> setup_ssh_keys reachable pool cluster_config key_path w1 = (Inr res2, w2)
          \<and> (\<forall>(n, node) \<in> set cluster_config.
                \<forall>h. dict_get node ''ip'' = Some h \<and> h \<noteq> [] \<longrightarrow>
                  dict_get res1 h = Some True \<and> dict_get res2 h = Some True)
          \<and> (\<forall>d. authorized_keys w1 d
                   = authorized_keys w d
                       @ replicate (count_list (key_targets cluster_config) d)
                           (strip (public_key_file w)))
          \<and> (\<forall>d. authorized_keys w2 d
                   = authorized_keys w d
                       @ replicate (2 * count_list (key_targets cluster_config) d)
                           (strip (public_key_file w)))"
    by blast
qed

lemma cluster_key_plain: "CHR 0x27 \<notin> set cluster_key"
  by (simp add: cluster_key_def)

lemma strip_key_file: "strip (cluster_key @ [CHR 0x0A]) = cluster_key"
  by (simp add: strip_def isspace_def cluster_key_def)

lemma key_world_key: "strip (public_key_file key_world) = cluster_key"
  by (simp add: key_world_def fresh_world_def strip_key_file)

lemma two_nodes_targets: "key_targets two_nodes = [''pi@10.0.0.1'', ''admin@10.0.0.2'']"
  by (simp add: two_nodes_def dict_get_def)

lemma two_nodes_passwords:
  "\<forall>(n, node) \<in> set two_nodes.
      truthy (dict_get node ''ip'') \<longrightarrow> truthy (dict_get node ''password'')"
  by (simp add: two_nodes_def dict_get_def)

theorem key_appended_on_every_run_witness:
  "truthy (dict_get [(''ip'', ''10.0.0.1''), (''password'', ''raspberry'')] ''password'')
   \<and> truthy (dict_get [(''ip'', ''10.0.0.2''), (''username'', ''admin''),
                        (''password'', ''secret'')] ''password'')
   \<and> CHR 0x27 \<notin> set (strip (public_key_file key_world))
   \<and> authorized_keys
        (snd (setup_ssh_keys reachable default_pool two_nodes ''~/.ssh/id_rsa'' key_world))
        ''admin@10.0.0.2''
       = [cluster_key]
   \<and> authorized_keys
        (snd (setup_ssh_keys reachable default_pool two_nodes ''~/.ssh/id_rsa''
               (snd (setup_ssh_keys reachable default_pool two_nodes ''~/.ssh/id_rsa''
                      key_world))))
        ''admin@10.0.0.2''
       = [cluster_key, cluster_key]
   \<and> (\<exists>res. fst (setup_ssh_keys reachable default_pool two_nodes ''~/.ssh/id_rsa''
                    (snd (setup_ssh_keys reachable default_pool two_nodes ''~/.ssh/id_rsa''
                           key_world))) = Inr res
            \<and> dict_get res ''10.0.0.2'' = Some True)"
proof -
  have q: "CHR 0x27 \<notin> set (strip (public_key_file key_world))"
    by (simp add: key_world_key cluster_key_plain)
  from key_appended_on_every_run
    [where cluster_config = two_nodes and w = key_world and pool = default_pool
       and key_path = "''~/.ssh/id_rsa''"] two_nodes_passwords q
  obtain res1 w1 res2 w2 where
    r1: "setup_ssh_keys reachable default_pool two_nodes ''~/.ssh/id_rsa'' key_world
           = (Inr res1, w1)"
    and r2: "setup_ssh_keys reachable default_pool two_nodes ''~/.ssh/id_rsa'' w1
           = (Inr res2, w2)"
    and t: "\<forall>(n, node) \<in> set two_nodes.
                \<forall>h. dict_get node ''ip'' = Some h \<and> h \<noteq> [] \<longrightarrow>
                  dict_get res1 h = Some True \<and> dict_get res2 h = Some True"
    and a1: "\<forall>d. authorized_keys w1 d
                   = authorized_keys key_world d
                       @ replicate (count_list (key_targets two_nodes) d)
                           (strip (public_key_file key_world))"
    and a2: "\<forall>d. authorized_keys w2 d
                   = authorized_keys key_world d
                       @ replicate (2 * count_list (key_targets two_nodes) d)
                           (strip (public_key_file key_world))"
    by blast
  have e: "authorized_keys key_world d = []" for d
    by (simp add: key_world_def fresh_world_def)
  have "authorized_keys w1 ''admin@10.0.0.2'' = [cluster_key]"
    using a1 by (simp add: two_nodes_targets key_world_key e)
  moreover have "authorized_keys w2 ''admin@10.0.0.2'' = [cluster_key, cluster_key]"
    using a2 by (simp add: two_nodes_targets key_world_key e numeral_2_eq_2)
  moreover have "dict_get res2 ''10.0.0.2'' = Some True"
    using t by (simp add: two_nodes_def dict_get_def)
  ultimately show ?thesis
    using q r1 r2 by (simp add: dict_get_def)
qed

lemma one_node_first_run:
  "setup_ssh_keys reachable default_pool one_node ''~/.ssh/id_rsa'' key_world
     = (Inr [(''10.0.0.1'', True)],
        key_world\<lparr> clock := 2,
                   authorized_keys := (\<lambda>d. [])(''pi@10.0.0.1'' := [cluster_key]) \<rparr>)"
  using cluster_key_plain
  by (simp add: setup_ssh_keys_def read_public_key_reachable key_world_key one_node_def
      dict_get_def SSHCredentials_init_def post_init_def reachable_install)
    (simp add: key_world_def fresh_world_def)

lemma one_node_second_run:
  "setup_ssh_keys reachable default_pool one_node ''~/.ssh/id_rsa''
     (key_world\<lparr> clock := 2,
                 authorized_keys := (\<lambda>d. [])(''pi@10.0.0.1'' := [cluster_key]) \<rparr>)
     = (Inr [(''10.0.0.1'', True)],
        key_world\<lparr> clock := 4,
                   authorized_keys :=
                     (\<lambda>d. [])(''pi@10.0.0.1'' := [cluster_key, cluster_key]) \<rparr>)"
  using cluster_key_plain
  by (simp add: setup_ssh_keys_def read_public_key_reachable key_world_key one_node_def
      dict_get_def SSHCredentials_init_def post_init_def reachable_install)

text \<open>
  The claim as stated fails: two runs against one host leave the key twice in its
  \<open>authorized_keys\<close>, and both runs report success.
\<close>

theorem second_run_duplicates_key:
  "fst (setup_ssh_keys reachable default_pool one_node ''~/.ssh/id_rsa'' key_world)
     = Inr [(''10.0.0.1'', True)]
   \<and> fst (setup_ssh_keys reachable default_pool one_node ''~/.ssh/id_rsa''
            (snd (setup_ssh_keys reachable default_pool one_node ''~/.ssh/id_rsa'' key_world)))
     = Inr [(''10.0.0.1'', True)]
   \<and> authorized_keys
        (snd (setup_ssh_keys reachable default_pool one_node ''~/.ssh/id_rsa''
               (snd (setup_ssh_keys reachable default_pool one_node ''~/.ssh/id_rsa''
                      key_world))))
        ''pi@10.0.0.1''
     = [cluster_key, cluster_key]"
  by (simp add: one_node_first_run one_node_second_run)

section \<open>A node without a password\<close>

lemma execute_command_returns:
  "\<exists>r w'. execute_command sys pool h cmd creds timeout w = (Inr r, w')"
proof -
  obtain x w' where p: "execute_command sys pool h cmd creds timeout w = (x, w')"
    by (cases "execute_command sys pool h cmd creds timeout w")
  obtain r where "x = Inr r"
    using execute_command_cases [of sys pool h cmd creds timeout w] p by simp
  with p show ?thesis by simp
qed

lemma deploy_keys_ValueError:
  assumes "(n, node) \<in> set cluster_config" "dict_get node ''ip'' = Some h" "h \<noteq> []"
    "\<not> truthy (dict_get node ''password'')"
  shows "fst (deploy_keys sys pool public_key cluster_config results w)
           = Inl (PyExc ValueError ''Either password or private_key_path must be provided'')"
  using assms(1)
proof (induction cluster_config arbitrary: results w)
  case Nil
  then show ?case by simp
next
  case (Cons a cluster_config)
  obtain n' node' where a: "a = (n', node')" by (cases a)
  show ?case
  proof (cases "a = (n, node)")
    case True
    then show ?thesis
      using assms(2-4) by (simp add: SSHCredentials_init_def post_init_def)
  next
    case False
    with Cons.prems have rest: "(n, node) \<in> set cluster_config" by simp
    note IH = Cons.IH [OF rest]
    show ?thesis
    proof (cases "dict_get node' ''ip''")
      case None
      then show ?thesis using IH by (simp add: a)
    next
      case (Some h')
      show ?thesis
      proof (cases "h' = []")
        case True
        then show ?thesis using IH Some by (simp add: a)
      next
        case nonempty: False
        show ?thesis
        proof (cases "truthy (dict_get node' ''password'')")
          case True
          let ?c = "\<lparr> username = (case dict_get node' ''username'' of None \<Rightarrow> ''pi'' | Some u \<Rightarrow> u),
                 password = dict_get node' ''password'', private_key_path = None, port = 22 \<rparr>"
          obtain r w' where
            "execute_command sys pool h' (key_command public_key) ?c 60 w = (Inr r, w')"
            using execute_command_returns [of sys pool h' "key_command public_key" ?c 60 w]
            by auto
          then show ?thesis
            using IH Some nonempty True
            by (simp add: a SSHCredentials_init_def post_init_def)
        next
          case False
          then show ?thesis
            using Some nonempty by (simp add: a SSHCredentials_init_def post_init_def)
        qed
      qed
    qed
  qed
qed

text \<open>
  Claim C10. \<open>setup_ssh_keys\<close> builds the credentials of a node from its password
  alone. Once the public key has been read, a cluster configuration with a node that has
  an address and no password (whether or not it has an \<open>ssh_key_path\<close>) makes the
  call raise the \<open>ValueError\<close> of the credential constructor: no result mapping is
  returned, whatever was recorded for the nodes before it.
\<close>

theorem setup_ssh_keys_loses_results:
  "fst (read_public_key sys key_path w) = Inr public_key
   \<and> (n, node) \<in> set cluster_config \<and> dict_get node ''ip'' = Some h \<and> h \<noteq> []
   \<and> \<not> truthy (dict_get node ''password'')
   \<longrightarrow> fst (setup_ssh_keys sys pool cluster_config key_path w)
         = Inl (PyExc ValueError ''Either password or private_key_path must be provided'')"
proof (intro impI, elim conjE)
  assume r: "fst (read_public_key sys key_path w) = Inr public_key"
    and n: "(n, node) \<in> set cluster_config" "dict_get node ''ip'' = Some h" "h \<noteq> []"
      "\<not> truthy (dict_get node ''password'')"
  obtain w' where "read_public_key sys key_path w = (Inr public_key, w')"
    using r by (metis prod.collapse)
  then show "fst (setup_ssh_keys sys pool cluster_config key_path w)
         = Inl (PyExc ValueError ''Either password or private_key_path must be provided'')"
    using deploy_keys_ValueError [OF n] by (simp add: setup_ssh_keys_def)
qed

lemma keyed_node_run:
  "setup_ssh_keys reachable default_pool keyed_node ''~/.ssh/id_rsa'' key_world
     = (Inl (PyExc ValueError ''Either password or private_key_path must be provided''),
        key_world\<lparr> clock := 2,
                   authorized_keys := (\<lambda>d. [])(''pi@10.0.0.1'' := [cluster_key]) \<rparr>)"
  using cluster_key_plain
  by (simp add: setup_ssh_keys_def read_public_key_reachable key_world_key keyed_node_def
      dict_get_def SSHCredentials_init_def post_init_def reachable_install)
    (simp add: key_world_def fresh_world_def)

theorem setup_ssh_keys_loses_results_witness:
  "fst (read_public_key reachable ''~/.ssh/id_rsa'' key_world) = Inr cluster_key
   \<and> (''node2'', [(''ip'', ''10.0.0.2''), (''ssh_key_path'', ''/home/pi/.ssh/id_rsa'')])
       \<in> set keyed_node
   \<and> dict_get [(''ip'', ''10.0.0.2''), (''ssh_key_path'', ''/home/pi/.ssh/id_rsa'')] ''ip''
       = Some ''10.0.0.2''
   \<and> \<not> truthy (dict_get [(''ip'', ''10.0.0.2''), (''ssh_key_path'', ''/home/pi/.ssh/id_rsa'')]
                   ''password'')
   \<and> fst (setup_ssh_keys reachable default_pool keyed_node ''~/.ssh/id_rsa'' key_world)
       = Inl (PyExc ValueError ''Either password or private_key_path must be provided'')
   \<and> authorized_keys
        (snd (setup_ssh_keys reachable default_pool keyed_node ''~/.ssh/id_rsa'' key_world))
        ''pi@10.0.0.1''
       = [cluster_key]"
proof -
  have a: "fst (read_public_key reachable ''~/.ssh/id_rsa'' key_world) = Inr cluster_key"
    by (simp add: read_public_key_reachable key_world_key)
  have b: "(''node2'', [(''ip'', ''10.0.0.2''), (''ssh_key_path'', ''/home/pi/.ssh/id_rsa'')])
       \<in> set keyed_node"
    by (simp add: keyed_node_def)
  have c: "dict_get [(''ip'', ''10.0.0.2''), (''ssh_key_path'', ''/home/pi/.ssh/id_rsa'')] ''ip''
       = Some ''10.0.0.2''"
    and d: "\<not> truthy (dict_get [(''ip'', ''10.0.0.2''), (''ssh_key_path'', ''/home/pi/.ssh/id_rsa'')]
                   ''password'')"
    by (simp_all add: dict_get_def)
  from setup_ssh_keys_loses_results
    [where sys = reachable and key_path = "''~/.ssh/id_rsa''" and w = key_world
       and public_key = cluster_key and n = "''node2''"
       and node = "[(''ip'', ''10.0.0.2''), (''ssh_key_path'', ''/home/pi/.ssh/id_rsa'')]"
       and cluster_config = keyed_node and h = "''10.0.0.2''" and pool = default_pool]
    a b c d
  have "fst (setup_ssh_keys reachable default_pool keyed_node ''~/.ssh/id_rsa'' key_world)
       = Inl (PyExc ValueError ''Either password or private_key_path must be provided'')"
    by simp
  with a b c d show ?thesis by (simp add: keyed_node_run)
qed

end
